theory Spec2Isabelle
  imports
    Complex_Main
    "HOL-Library.Char_ord"
    "HOL-Library.List_Lexorder"
    "HOL-Library.Sublist"
    "HOL-Library.AList"
    "HOL-Library.Multiset"
begin

section \<open>JavaScript values\<close>

text \<open>
  The program is \<^verbatim>\<open>src/index.js\<close>. Its data are JavaScript values. A number is a
  rational, \<^verbatim>\<open>NaN\<close> or an infinity: arithmetic is exact where the runtime rounds to a
  double (the only arithmetic of the program multiplies a counter by 100 and divides it by a
  counter, where rounding to a double cannot move the quotient across a half), and signed
  zeros are not distinguished.
\<close>

datatype jsnum = NaN | PosInf | NegInf | Fin rat

text \<open>
  The value of a check or metric: \<^verbatim>\<open>undefined\<close> (also what reading an absent property
  gives), \<^verbatim>\<open>null\<close>, a boolean, a number or a string.
\<close>

datatype jsval = Undefined | Null | Bool bool | Num jsnum | Str string

datatype error = TypeError

text \<open>
  An object with a fixed key type is its list of entries, in the order in which the object
  enumerates its keys.
\<close>

type_synonym 'a obj = "(string \<times> 'a) list"

fun typeof :: "jsval \<Rightarrow> string" where
  "typeof Undefined = ''undefined''"
| "typeof Null = ''object''"
| "typeof (Bool b) = ''boolean''"
| "typeof (Num n) = ''number''"
| "typeof (Str s) = ''string''"

text \<open>\<^verbatim>\<open>ToBoolean\<close>: what \<^verbatim>\<open>if (v)\<close>, \<^verbatim>\<open>!v\<close>, \<^verbatim>\<open>v && w\<close>, \<^verbatim>\<open>v || w\<close> and \<^verbatim>\<open>v ? a : b\<close> test.\<close>

fun truthy :: "jsval \<Rightarrow> bool" where
  "truthy Undefined = False"
| "truthy Null = False"
| "truthy (Bool b) = b"
| "truthy (Num n) = (n \<noteq> NaN \<and> n \<noteq> Fin 0)"
| "truthy (Str s) = (s \<noteq> [])"

text \<open>\<^verbatim>\<open>a && b\<close> is \<^verbatim>\<open>a\<close> when \<^verbatim>\<open>a\<close> is falsy (and \<^verbatim>\<open>b\<close> is not evaluated), \<^verbatim>\<open>b\<close> otherwise;
  \<^verbatim>\<open>a || b\<close> is \<^verbatim>\<open>a\<close> when \<^verbatim>\<open>a\<close> is truthy, \<^verbatim>\<open>b\<close> otherwise. The second operand
  may throw, so it is a computation.\<close>

definition js_and :: "jsval \<Rightarrow> (error + jsval) \<Rightarrow> error + jsval" where
  "js_and a b = (if truthy a then b else Inr a)"

definition js_or :: "jsval \<Rightarrow> (error + jsval) \<Rightarrow> error + jsval" where
  "js_or a b = (if truthy a then Inr a else b)"

text \<open>\<^verbatim>\<open>a / b\<close>, \<^verbatim>\<open>a < b\<close> and \<^verbatim>\<open>a <= b\<close> on numbers: a comparison with \<^verbatim>\<open>NaN\<close> is false.\<close>

fun js_divide :: "jsnum \<Rightarrow> jsnum \<Rightarrow> jsnum" where
  "js_divide (Fin a) (Fin b) =
     (if b \<noteq> 0 then Fin (a / b)
      else if a = 0 then NaN
      else if 0 < a then PosInf else NegInf)"
| "js_divide (Fin a) PosInf = Fin 0"
| "js_divide (Fin a) NegInf = Fin 0"
| "js_divide PosInf (Fin b) = (if 0 \<le> b then PosInf else NegInf)"
| "js_divide NegInf (Fin b) = (if 0 \<le> b then NegInf else PosInf)"
| "js_divide a b = NaN"

fun js_less :: "jsnum \<Rightarrow> jsnum \<Rightarrow> bool" where
  "js_less NaN b = False"
| "js_less a NaN = False"
| "js_less (Fin a) (Fin b) = (a < b)"
| "js_less a PosInf = (a \<noteq> PosInf)"
| "js_less NegInf b = (b \<noteq> NegInf)"
| "js_less a b = False"

fun js_less_eq :: "jsnum \<Rightarrow> jsnum \<Rightarrow> bool" where
  "js_less_eq NaN b = False"
| "js_less_eq a NaN = False"
| "js_less_eq a b = (a = b \<or> js_less a b)"

text \<open>\<^verbatim>\<open>Math.round\<close>: the nearest integer, a half rounded up; \<^verbatim>\<open>Math.floor\<close>.\<close>

fun Math_round :: "jsnum \<Rightarrow> jsnum" where
  "Math_round (Fin q) = Fin (of_int \<lfloor>q + 1 / 2\<rfloor>)"
| "Math_round n = n"

fun Math_floor :: "jsnum \<Rightarrow> jsnum" where
  "Math_floor (Fin q) = Fin (of_int \<lfloor>q\<rfloor>)"
| "Math_floor n = n"

text \<open>
  \<^verbatim>\<open>xs[n]\<close> for an array of strings and a number: the element when \<^verbatim>\<open>n\<close> is one of the
  array's indices, \<^verbatim>\<open>undefined\<close> otherwise.
\<close>

fun js_index :: "string list \<Rightarrow> jsnum \<Rightarrow> jsval" where
  "js_index xs (Fin i) =
     (if of_int \<lfloor>i\<rfloor> = i \<and> 0 \<le> i \<and> i < of_nat (length xs) then Str (xs ! nat \<lfloor>i\<rfloor>)
      else Undefined)"
| "js_index xs n = Undefined"

text \<open>Reading a property of an object: \<^verbatim>\<open>undefined\<close> when the object has no such key.\<close>

definition read_prop :: "jsval obj \<Rightarrow> string \<Rightarrow> jsval" where
  "read_prop ob k = (case map_of ob k of None \<Rightarrow> Undefined | Some v \<Rightarrow> v)"

text \<open>
  Sequencing of computations that may throw, and the evaluation of an object literal
  \<^verbatim>\<open>{k1: e1, k2: e2, ...}\<close>: the values are evaluated in order and the first throw
  leaves the literal.
\<close>

definition bind :: "error + 'a \<Rightarrow> ('a \<Rightarrow> error + 'b) \<Rightarrow> error + 'b" where
  "bind m f = (case m of Inl e \<Rightarrow> Inl e | Inr x \<Rightarrow> f x)"

fun object :: "(string \<times> (error + 'a)) list \<Rightarrow> error + 'a obj" where
  "object [] = Inr []"
| "object ((k, e) # rest) = bind e (\<lambda>v. bind (object rest) (\<lambda>ob. Inr ((k, v) # ob)))"

section \<open>The scorer\<close>

text \<open>
  Normalized results: category name to metric name to value, as \<^verbatim>\<open>processResults\<close>
  builds them and as an archive file holds them per bank.
\<close>

type_synonym results = "jsval obj obj"

text \<open>
  The body of the inner loop of \<^verbatim>\<open>calculateScore\<close> for one metric value, on the
  counters \<^verbatim>\<open>total\<close> (here \<open>tot\<close>) and \<^verbatim>\<open>score\<close>.
\<close>

fun count_metric :: "jsval \<Rightarrow> nat \<times> nat \<Rightarrow> nat \<times> nat" where
  "count_metric v (tot, score) =
     (if ''string'' = typeof v then (tot, score)
      else (tot + 1, if truthy v then score + 1 else score))"

definition count_category :: "string \<times> jsval obj \<Rightarrow> nat \<times> nat \<Rightarrow> nat \<times> nat" where
  "count_category category acc = fold (\<lambda>metric. count_metric (snd metric)) (snd category) acc"

definition count_results :: "results \<Rightarrow> nat \<times> nat" where
  "count_results results = fold count_category results (0, 0)"

definition calculateScore :: "results \<Rightarrow> jsnum" where
  "calculateScore results =
     (let (tot, score) = count_results results
      in Math_round (js_divide (Fin (of_nat score * 100)) (Fin (of_nat tot))))"

definition calculateGrade :: "jsnum \<Rightarrow> jsval" where
  "calculateGrade score =
     js_index [''E'', ''D'', ''C'', ''B'', ''A'', ''Z''] (Math_floor (js_divide score (Fin 20)))"

section \<open>The normalizer\<close>

text \<open>
  What the scanner returns for one domain: an object with one entry per check. An entry has a
  \<^verbatim>\<open>result\<close> and may have \<^verbatim>\<open>data\<close>, whose shape depends on the check. An entry that
  is absent, and \<^verbatim>\<open>data\<close> that is absent, are \<open>None\<close>: reading a property of them
  throws a \<^verbatim>\<open>TypeError\<close>. A \<^verbatim>\<open>result\<close>, flag or header value that is absent is
  \<open>Undefined\<close>.
\<close>

record 'd check =
  result :: jsval
  data :: "'d option"

record hsts_data =
  age :: "jsnum option"
  preloaded :: jsval

record accepts_entry =
  https :: jsval

record header_data =
  "value" :: jsval

record raw =
  upgradeToHttps :: "unit check option"
  secureRedirectionChain :: "unit check option"
  accepts :: "accepts_entry option"
  hsts :: "hsts_data check option"
  tlsProtocols :: "jsval obj check option"
  forwardSecrecy :: "unit check option"
  certificate :: "unit check option"
  dnssec :: "unit check option"
  caa :: "unit check option"
  contentSecurityPolicy :: "string list obj check option"
  xXssProtection :: "unit check option"
  xFrameOptions :: "unit check option"
  featurePolicy :: "unit check option"
  referrerPolicy :: "unit check option"
  xContentTypeOptions :: "unit check option"
  server :: "header_data check option"
  poweredBy :: "header_data check option"
  aspVersion :: "header_data check option"
  Miscellaneous_Headers :: "jsval obj option"

text \<open>\<^verbatim>\<open>e.p\<close> where \<^verbatim>\<open>e\<close> may be absent.\<close>

definition get :: "'a option \<Rightarrow> ('a \<Rightarrow> 'b) \<Rightarrow> error + 'b" where
  "get e p = (case e of None \<Rightarrow> Inl TypeError | Some x \<Rightarrow> Inr (p x))"

text \<open>\<^verbatim>\<open>xs.join(sep)\<close> and \<^verbatim>\<open>s.includes(e)\<close> on strings.\<close>

fun join :: "string \<Rightarrow> string list \<Rightarrow> string" where
  "join sep [] = []"
| "join sep [x] = x"
| "join sep (x # y # ys) = x @ sep @ join sep (y # ys)"

definition js_includes :: "string \<Rightarrow> string \<Rightarrow> bool" where
  "js_includes s e = sublist e s"

text \<open>
  \<^verbatim>\<open>parseCsp\<close>, the private function of \<^verbatim>\<open>processResults\<close>; it reads
  \<^verbatim>\<open>results\<close> of the enclosing call.
\<close>

definition framingProtection :: "string list option \<Rightarrow> bool" where
  "framingProtection fa =
     (case fa of
        None \<Rightarrow> False
      | Some toks \<Rightarrow>
          if toks \<noteq> [] then
            (let sources = '' '' @ join '' '' toks @ '' ''
             in fold (\<lambda>e fp. if js_includes sources e then False else fp)
                  ['' data: '', '' http: '', '' https: ''] True)
          else False)"

definition parseCsp :: "raw \<Rightarrow> string list obj option \<Rightarrow> error + jsval obj" where
  "parseCsp results csp =
     bind (get csp (\<lambda>d. map_of d ''frame-ancestors'')) (\<lambda>fa.
     bind (get (contentSecurityPolicy results) result) (\<lambda>xssProtection.
       object
         [(''XSS Protection'', js_or xssProtection (get (xXssProtection results) result)),
          (''Framing Protection'',
             js_or (Bool (framingProtection fa)) (get (xFrameOptions results) result))]))"

text \<open>
  \<^verbatim>\<open>processResults\<close>. The last statement of the source assigns to
  \<^verbatim>\<open>results["Miscellaneous Headers"]\<close>, a property of the argument, and reads the global
  \<^verbatim>\<open>bank\<close>, which the loop of \<^verbatim>\<open>createWebsite\<close> sets; \<open>bank_results\<close> is
  \<^verbatim>\<open>bank.results\<close> (\<open>None\<close> when reading \<^verbatim>\<open>bank.results.server\<close> would throw).
  The function returns \<^verbatim>\<open>response\<close>; the model returns it with the argument as the call
  leaves it.
\<close>

definition header_value :: "header_data check option \<Rightarrow> error + jsval" where
  "header_value e =
     bind (get e result) (\<lambda>r.
       if truthy r then Inr (Str []) else bind (get e data) (\<lambda>d. get d value))"

definition response_HTTPS :: "raw \<Rightarrow> error + jsval obj" where
  "response_HTTPS results =
     object
       [(''Upgrade HTTP'', get (upgradeToHttps results) result),
        (''Secure Redirection'', get (secureRedirectionChain results) result),
        (''Accepts HTTPS'', get (accepts results) https),
        (''HSTS'', get (hsts results) result),
        (''HSTS Long Length'',
           bind (get (hsts results) result) (\<lambda>r. js_and r
             (bind (get (hsts results) data) (\<lambda>d. get d (\<lambda>d.
                Bool (case age d of None \<Rightarrow> False | Some n \<Rightarrow> js_less_eq (Fin 180) n)))))),
        (''HSTS Preloaded'',
           bind (get (hsts results) result) (\<lambda>r. js_and r
             (bind (get (hsts results) data) (\<lambda>d. get d preloaded))))]"

definition response_TLS :: "raw \<Rightarrow> error + jsval obj" where
  "response_TLS results =
     object
       [(''TLS 1.3 Enabled'',
           bind (get (tlsProtocols results) data) (\<lambda>d. get d (\<lambda>ob. read_prop ob ''1.3''))),
        (''TLS 1.1 Disabled'',
           bind (get (tlsProtocols results) data) (\<lambda>d.
             get d (\<lambda>ob. Bool (\<not> truthy (read_prop ob ''1.1''))))),
        (''TLS 1.0 Disabled'',
           bind (get (tlsProtocols results) data) (\<lambda>d.
             get d (\<lambda>ob. Bool (\<not> truthy (read_prop ob ''1.0''))))),
        (''Forward Secrecy'', get (forwardSecrecy results) result),
        (''Certificate Length'', get (certificate results) result)]"

definition response_DNS :: "raw \<Rightarrow> error + jsval obj" where
  "response_DNS results =
     object
       [(''DNSSEC'', get (dnssec results) result),
        (''CAA'', get (caa results) result)]"

definition response_CSP :: "raw \<Rightarrow> error + jsval obj" where
  "response_CSP results = bind (get (contentSecurityPolicy results) data) (parseCsp results)"

definition response_HTTP :: "raw \<Rightarrow> error + jsval obj" where
  "response_HTTP results =
     object
       [(''Feature Policy'', get (featurePolicy results) result),
        (''Referrer Policy'', get (referrerPolicy results) result),
        (''MIME Type Sniffing Protection'', get (xContentTypeOptions results) result)]"

definition results_Miscellaneous_Headers :: "raw option \<Rightarrow> error + jsval obj" where
  "results_Miscellaneous_Headers bank_results =
     object
       [(''Server'', bind (get bank_results server) header_value),
        (''X-Powered-By'', bind (get bank_results poweredBy) header_value),
        (''ASP.NET Version'', bind (get bank_results aspVersion) header_value)]"

definition processResults :: "raw option \<Rightarrow> raw \<Rightarrow> error + (results \<times> raw)" where
  "processResults bank_results results =
     bind (response_HTTPS results) (\<lambda>HTTPS.
     bind (response_TLS results) (\<lambda>TLS.
     bind (response_DNS results) (\<lambda>DNS.
     bind (response_CSP results) (\<lambda>CSP.
     bind (response_HTTP results) (\<lambda>HTTP.
     bind (results_Miscellaneous_Headers bank_results) (\<lambda>misc.
       Inr ([(''HTTPS'', HTTPS), (''TLS'', TLS), (''DNS'', DNS), (''CSP'', CSP), (''HTTP'', HTTP)],
            results\<lparr>Miscellaneous_Headers := Some misc\<rparr>)))))))"

text \<open>Reading one metric of normalized results: \<^verbatim>\<open>response[category][metric]\<close>.\<close>

definition metric :: "results \<Rightarrow> string \<Rightarrow> string \<Rightarrow> jsval option" where
  "metric response category m =
     (case map_of response category of None \<Rightarrow> None | Some ms \<Rightarrow> map_of ms m)"

text \<open>
  A scan in which every check of the scanner passed but the \<^verbatim>\<open>Server\<close> header check,
  used as the concrete input of the examples.
\<close>

definition passed :: "unit check" where
  "passed = \<lparr>result = Bool True, data = None\<rparr>"

definition scan :: raw where
  "scan =
     \<lparr>upgradeToHttps = Some passed,
      secureRedirectionChain = Some passed,
      accepts = Some \<lparr>https = Bool True\<rparr>,
      hsts = Some \<lparr>result = Bool True,
                   data = Some \<lparr>age = Some (Fin 365), preloaded = Bool True\<rparr>\<rparr>,
      tlsProtocols = Some \<lparr>result = Bool True,
                   data = Some [(''1.3'', Bool True), (''1.2'', Bool True),
                                (''1.1'', Bool False), (''1.0'', Bool False)]\<rparr>,
      forwardSecrecy = Some passed,
      certificate = Some passed,
      dnssec = Some passed,
      caa = Some passed,
      contentSecurityPolicy = Some \<lparr>result = Bool True,
                   data = Some [(''default-src'', [''https://example.com'']),
                                (''frame-ancestors'', [''self.example.com''])]\<rparr>,
      xXssProtection = Some passed,
      xFrameOptions = Some passed,
      featurePolicy = Some passed,
      referrerPolicy = Some passed,
      xContentTypeOptions = Some passed,
      server = Some \<lparr>result = Bool False, data = Some \<lparr>value = Str ''nginx''\<rparr>\<rparr>,
      poweredBy = Some \<lparr>result = Bool True, data = None\<rparr>,
      aspVersion = Some \<lparr>result = Bool True, data = None\<rparr>,
      Miscellaneous_Headers = None\<rparr>"

text \<open>
  The metric values of normalized results in the order the two nested iterations of
  \<^verbatim>\<open>calculateScore\<close> visit them, and the test the loop makes before it counts one.
\<close>

definition metric_values :: "results \<Rightarrow> jsval list" where
  "metric_values results = map snd (concat (map snd results))"

definition scorable :: "jsval \<Rightarrow> bool" where
  "scorable v = (typeof v \<noteq> ''string'')"

text \<open>
  The reads of \<^verbatim>\<open>processResults\<close> that must find something: every check entry it reads,
  \<^verbatim>\<open>tlsProtocols.data\<close> and \<^verbatim>\<open>contentSecurityPolicy.data\<close>, \<^verbatim>\<open>hsts.data\<close> when the
  HSTS result is truthy, \<^verbatim>\<open>xXssProtection\<close> when the CSP result is falsy,
  \<^verbatim>\<open>xFrameOptions\<close> when the frame-ancestors directive gives no protection, and for the
  three header checks of \<^verbatim>\<open>bank.results\<close> the \<^verbatim>\<open>data\<close> when the result is falsy.
\<close>

definition header_readable :: "header_data check option \<Rightarrow> bool" where
  "header_readable e = (case e of None \<Rightarrow> False | Some c \<Rightarrow> truthy (result c) \<or> data c \<noteq> None)"

definition reads_defined :: "raw option \<Rightarrow> raw \<Rightarrow> bool" where
  "reads_defined bank_results results \<longleftrightarrow>
     upgradeToHttps results \<noteq> None \<and> secureRedirectionChain results \<noteq> None \<and>
     accepts results \<noteq> None \<and>
     (case hsts results of None \<Rightarrow> False | Some h \<Rightarrow> truthy (result h) \<longrightarrow> data h \<noteq> None) \<and>
     (case tlsProtocols results of None \<Rightarrow> False | Some t \<Rightarrow> data t \<noteq> None) \<and>
     forwardSecrecy results \<noteq> None \<and> certificate results \<noteq> None \<and>
     dnssec results \<noteq> None \<and> caa results \<noteq> None \<and>
     (case contentSecurityPolicy results of
        None \<Rightarrow> False
      | Some c \<Rightarrow>
          (case data c of
             None \<Rightarrow> False
           | Some d \<Rightarrow>
               (truthy (result c) \<or> xXssProtection results \<noteq> None) \<and>
               (framingProtection (map_of d ''frame-ancestors'') \<or>
                  xFrameOptions results \<noteq> None))) \<and>
     featurePolicy results \<noteq> None \<and> referrerPolicy results \<noteq> None \<and>
     xContentTypeOptions results \<noteq> None \<and>
     (case bank_results of
        None \<Rightarrow> False
      | Some b \<Rightarrow>
          header_readable (server b) \<and> header_readable (poweredBy b) \<and>
          header_readable (aspVersion b))"

text \<open>
  The space-delimited entries of a string (\<^verbatim>\<open>s.split(" ")\<close>), and the three scheme sources
  that allow framing by anyone.
\<close>

fun space_split :: "string \<Rightarrow> string list" where
  "space_split [] = [[]]"
| "space_split (c # cs) =
     (if c = CHR '' '' then [] # space_split cs
      else (case space_split cs of [] \<Rightarrow> [[c]] | w # ws \<Rightarrow> (c # w) # ws))"

definition wildcard_schemes :: "string list" where
  "wildcard_schemes = [''data:'', ''http:'', ''https:'']"

section \<open>The snapshot of a run\<close>

text \<open>
  An archive file holds a JSON document: country code to bank name to normalized results. The
  document is modelled by its structure, not by its text: what \<^verbatim>\<open>JSON.stringify\<close> writes
  for a metric value. A property whose value is \<^verbatim>\<open>undefined\<close> is left out of the document;
  \<^verbatim>\<open>NaN\<close> and the infinities are written as \<^verbatim>\<open>null\<close>.
\<close>

datatype json = JNull | JBool bool | JNumber rat | JString string

type_synonym archive = "json obj obj obj obj"

fun JSON_of_value :: "jsval \<Rightarrow> json option" where
  "JSON_of_value Undefined = None"
| "JSON_of_value Null = Some JNull"
| "JSON_of_value (Bool b) = Some (JBool b)"
| "JSON_of_value (Num (Fin q)) = Some (JNumber q)"
| "JSON_of_value (Num n) = Some JNull"
| "JSON_of_value (Str s) = Some (JString s)"

definition stringify_metrics :: "jsval obj \<Rightarrow> json obj" where
  "stringify_metrics metrics =
     List.map_filter (\<lambda>m. map_option (Pair (fst m)) (JSON_of_value (snd m))) metrics"

definition map_values :: "('a \<Rightarrow> 'b) \<Rightarrow> 'a obj \<Rightarrow> 'b obj" where
  "map_values f ob = map (\<lambda>entry. (fst entry, f (snd entry))) ob"

definition JSON_stringify :: "results obj obj \<Rightarrow> archive" where
  "JSON_stringify v = map_values (map_values (map_values stringify_metrics)) v"

text \<open>
  Modelled from the spec: the archive store behind \<^verbatim>\<open>FS.writeFile\<close> of
  \<^verbatim>\<open>filesystem.js\<close>, which is not among the sources: a key-value store from file name to
  content, whose listing has each name once. Writing replaces the file of that name or adds one.
  The store holds the files under \<^verbatim>\<open>PATHS.HISTORY\<close>; the pages and the sitemap are other
  files.
\<close>

type_synonym directory = "archive obj"

definition FS_writeFile :: "directory \<Rightarrow> string \<Rightarrow> archive \<Rightarrow> directory" where
  "FS_writeFile dir filename content = AList.update filename content dir"

text \<open>\<^verbatim>\<open>n.toString()\<close> for a natural number below \<open>10\<^sup>2\<^sup>1\<close>: its decimal digits.\<close>

definition digit :: "nat \<Rightarrow> char" where
  "digit d = ''0123456789'' ! d"

function toString :: "nat \<Rightarrow> string" where
  "toString n = (if n < 10 then [digit n] else toString (n div 10) @ [digit (n mod 10)])"
  by pat_completeness auto
termination
  by (relation "measure id") auto

declare toString.simps [simp del]

text \<open>
  \<^verbatim>\<open>ob[key] = v\<close> on an object that code creates with \<^verbatim>\<open>{}\<close>. A key the object has
  keeps its place. A new key that is an array index (the decimal string of a number below
  \<open>2\<^sup>3\<^sup>2 - 1 = 4294967295\<close>) goes among the array indices, which an object enumerates first and in
  ascending numeric order; any other new key goes to the end.
\<close>

definition is_digit :: "char \<Rightarrow> bool" where
  "is_digit c \<longleftrightarrow> CHR ''0'' \<le> c \<and> c \<le> CHR ''9''"

definition array_index :: "string \<Rightarrow> nat option" where
  "array_index key =
     (if key \<noteq> [] \<and> list_all is_digit key then
        (let n = foldl (\<lambda>n c. 10 * n + (of_char c - of_char CHR ''0'')) 0 key
         in if toString n = key \<and> n < 4294967295 then Some n else None)
      else None)"

fun insert_index :: "nat \<Rightarrow> string \<Rightarrow> 'a \<Rightarrow> 'a obj \<Rightarrow> 'a obj" where
  "insert_index n key v [] = [(key, v)]"
| "insert_index n key v (entry # entries) =
     (case array_index (fst entry) of
        None \<Rightarrow> (key, v) # entry # entries
      | Some m \<Rightarrow>
          if m < n then entry # insert_index n key v entries else (key, v) # entry # entries)"

definition obj_put :: "string \<Rightarrow> 'a \<Rightarrow> 'a obj \<Rightarrow> 'a obj" where
  "obj_put key v ob =
     (if key \<in> set (map fst ob) then AList.update key v ob
      else (case array_index key of None \<Rightarrow> ob @ [(key, v)] | Some n \<Rightarrow> insert_index n key v ob))"

text \<open>
  What a page function of the source throws. \<^verbatim>\<open>createWebsite\<close> is an
  \<^verbatim>\<open>async\<close> function: an exception thrown in its body ends the body there and rejects the
  promise it returned. An exception is a \<^verbatim>\<open>TypeError\<close> as in the normalizer, or the
  \<^verbatim>\<open>ReferenceError\<close> of reading a variable that no scope declares.
\<close>

datatype exception = Thrown error | ReferenceError

definition thrown :: "error + 'a \<Rightarrow> exception + 'a" where
  "thrown r = (case r of Inl e \<Rightarrow> Inl (Thrown e) | Inr x \<Rightarrow> Inr x)"

definition and_then :: "exception + 'a \<Rightarrow> ('a \<Rightarrow> exception + 'b) \<Rightarrow> exception + 'b" where
  "and_then m f = (case m of Inl e \<Rightarrow> Inl e | Inr x \<Rightarrow> f x)"

text \<open>A loop over a list whose body may throw; \<open>s\<close> is what the body updates.\<close>

fun for_each :: "('a \<Rightarrow> 's \<Rightarrow> exception + 's) \<Rightarrow> 'a list \<Rightarrow> 's \<Rightarrow> exception + 's" where
  "for_each body [] s = Inr s"
| "for_each body (x # xs) s = and_then (body x s) (for_each body xs)"

text \<open>
  The global \<^verbatim>\<open>TEMPLATES\<close>: \<^verbatim>\<open>getTemplates\<close> gives it one property per file of the
  template directory, so each of the three templates the pages use is a string or absent. A
  bank as \<^verbatim>\<open>scanWebsites\<close> hands it over: \<^verbatim>\<open>bank.results\<close> is absent when the scanner
  gave nothing. The fields of a bank and of its country carry a prefix, \<open>results\<close> and
  \<open>name\<close> being names of this theory already.
\<close>

record templates =
  BANK :: "string option"
  COUNTRY :: "string option"
  HOMEPAGE :: "string option"

record country =
  country_code :: string
  country_name :: string

record bank =
  bank_name :: string
  bank_domain :: string
  bank_country :: country
  bank_results :: "raw option"

text \<open>
  The pages. The text of a page is not modelled, only whether building it throws: a page
  function is modelled by the exceptions of its statements, in the order of the source.
  \<^verbatim>\<open>htmlEncode\<close> calls \<^verbatim>\<open>string.split\<close>, which only a string has.
  \<^verbatim>\<open>makeBankMain\<close> calls it for every metric that is neither a boolean nor the empty
  string; the history section it adds reads nothing that can be absent.
  \<^verbatim>\<open>writeBankPage\<close> and \<^verbatim>\<open>writeCountryPage\<close> call \<^verbatim>\<open>page.replace\<close> on their
  template. \<^verbatim>\<open>calculateScore\<close>, \<^verbatim>\<open>calculateGrade\<close>, \<^verbatim>\<open>makeUrlSafe\<close>,
  \<^verbatim>\<open>getExplanation\<close>, \<^verbatim>\<open>makeCard\<close> and \<^verbatim>\<open>sortCards\<close> throw nothing and give page
  text only.
\<close>

definition htmlEncode :: "jsval \<Rightarrow> exception + unit" where
  "htmlEncode string = (case string of Str s \<Rightarrow> Inr () | _ \<Rightarrow> Inl (Thrown TypeError))"

definition makeBankMain :: "results \<Rightarrow> exception + unit" where
  "makeBankMain results =
     for_each (\<lambda>category.
        for_each (\<lambda>metric _.
           case snd metric of
             Bool b \<Rightarrow> Inr ()
           | v \<Rightarrow> if v = Str [] then Inr () else htmlEncode v)
          (snd category))
       results ()"

definition writeBankPage :: "templates \<Rightarrow> results \<Rightarrow> exception + unit" where
  "writeBankPage TEMPLATES results =
     (case BANK TEMPLATES of None \<Rightarrow> Inl (Thrown TypeError) | Some page \<Rightarrow> makeBankMain results)"

definition writeCountryPage :: "templates \<Rightarrow> exception + unit" where
  "writeCountryPage TEMPLATES =
     (case COUNTRY TEMPLATES of None \<Rightarrow> Inl (Thrown TypeError) | Some page \<Rightarrow> Inr ())"

text \<open>
  \<^verbatim>\<open>writeHomePage\<close>. Reading \<^verbatim>\<open>TEMPLATES.HOMEPAGE\<close> throws nothing, absent or not. The
  next statement evaluates \<^verbatim>\<open>Object.keys(countries)\<close>: \<^verbatim>\<open>countries\<close> is neither a
  parameter nor a local of \<^verbatim>\<open>writeHomePage\<close>, no declaration and no assignment of the
  module creates a variable of that name outside \<^verbatim>\<open>main\<close>, \<^verbatim>\<open>printWelcome\<close>,
  \<^verbatim>\<open>scanWebsites\<close> and \<^verbatim>\<open>createWebsite\<close>, where it is local, so the read throws a
  \<^verbatim>\<open>ReferenceError\<close> whatever the cards are.
\<close>

definition writeHomePage :: "exception + unit" where
  "writeHomePage = Inl ReferenceError"

text \<open>
  The file name of the month: the year and the month (1 to 12) of the clock, the month with two
  digits.
\<close>

definition yearMonth :: "nat \<Rightarrow> nat \<Rightarrow> string" where
  "yearMonth year month =
     toString year @ (if 10 > month then ''0'' @ toString month else toString month)"

text \<open>
  The countries of \<^verbatim>\<open>fullResults\<close> in the order of \<^verbatim>\<open>Object.keys(fullResults).sort()\<close>
  (strings by character code), assigned one by one to a new object.
\<close>

definition orderedResults :: "results obj obj \<Rightarrow> results obj obj" where
  "orderedResults fullResults =
     fold (\<lambda>key ordered.
        case map_of fullResults key of
          None \<Rightarrow> ordered
        | Some v \<Rightarrow> obj_put key v ordered)
       (sort (map fst fullResults)) []"

text \<open>
  \<^verbatim>\<open>createWebsite\<close>. The body of the loop over the banks: an element of \<^verbatim>\<open>banks\<close> that is
  \<^verbatim>\<open>undefined\<close> is \<open>None\<close>, and reading \<^verbatim>\<open>bank.results\<close> of it throws; so does
  \<^verbatim>\<open>processResults\<close> on absent results, and the assignment to
  \<^verbatim>\<open>fullResults[bank.country.code][bank.name]\<close> when \<^verbatim>\<open>countries\<close> has no such code.
  The loop variable \<^verbatim>\<open>bank\<close> is the global that \<^verbatim>\<open>processResults\<close> reads.
\<close>

definition createWebsite_bank ::
  "templates \<Rightarrow> bank option \<Rightarrow> results obj obj \<Rightarrow> exception + results obj obj" where
  "createWebsite_bank TEMPLATES bank fullResults =
     (case bank of
        None \<Rightarrow> Inl (Thrown TypeError)
      | Some b \<Rightarrow>
          (case bank_results b of
             None \<Rightarrow> Inl (Thrown TypeError)
           | Some r \<Rightarrow>
               and_then (thrown (processResults (Some r) r)) (\<lambda>processed.
                 (case map_of fullResults (country_code (bank_country b)) of
                    None \<Rightarrow> Inl (Thrown TypeError)
                  | Some banks \<Rightarrow>
                      and_then (writeBankPage TEMPLATES (fst processed)) (\<lambda>_.
                        Inr (obj_put (country_code (bank_country b))
                               (obj_put (bank_name b) (fst processed) banks) fullResults))))))"

text \<open>
  The whole function, for the banks, the countries (code to name, in the order of the object),
  the year and the month of the clock and the archive directory: on \<open>Inr\<close> the directory after
  the write of the month's file, on \<open>Inl\<close> the exception that ended the body before it.
\<close>

definition createWebsite ::
  "templates \<Rightarrow> bank option list \<Rightarrow> string obj \<Rightarrow> nat \<Rightarrow> nat \<Rightarrow> directory
     \<Rightarrow> exception + directory" where
  "createWebsite TEMPLATES banks countries year month dir =
     and_then
       (for_each (createWebsite_bank TEMPLATES) banks
          (fold (\<lambda>country fullResults. obj_put (fst country) [] fullResults) countries []))
       (\<lambda>fullResults.
     and_then (for_each (\<lambda>country _. writeCountryPage TEMPLATES) countries ()) (\<lambda>_.
     and_then writeHomePage (\<lambda>_.
       Inr (FS_writeFile dir (yearMonth year month @ ''.json'')
              (JSON_stringify (orderedResults fullResults))))))"

text \<open>
  The array that \<^verbatim>\<open>scanWebsites\<close> passes to \<^verbatim>\<open>createWebsite\<close>, its only caller:
  \<^verbatim>\<open>banks.map\<close> with a callback that stores the scan on the bank it is given and returns
  nothing, so as many \<^verbatim>\<open>undefined\<close> as there are banks.
\<close>

definition scanWebsites_banks :: "bank list \<Rightarrow> bank option list" where
  "scanWebsites_banks banks = map (\<lambda>bank. None) banks"

text \<open>
  Three templates that are present, and a bank of New Zealand with the scan of the examples.
\<close>

definition pages :: templates where
  "pages = \<lparr>BANK = Some ''$main'', COUNTRY = Some ''$main'', HOMEPAGE = Some ''$main''\<rparr>"

definition kiwibank :: bank where
  "kiwibank =
     \<lparr>bank_name = ''Kiwibank'', bank_domain = ''kiwibank.co.nz'',
      bank_country = \<lparr>country_code = ''nz'', country_name = ''New Zealand''\<rparr>,
      bank_results = Some scan\<rparr>"

section \<open>Ranking\<close>

text \<open>
  A card, and the comparison function of \<^verbatim>\<open>sortCards\<close>. Strings compare as JavaScript
  compares them, lexicographically by character code; \<^verbatim>\<open>a > b\<close> on numbers is \<^verbatim>\<open>b < a\<close>.
\<close>

record card =
  score :: jsnum
  name :: string
  html :: string

definition compareCards :: "card \<Rightarrow> card \<Rightarrow> int" where
  "compareCards a b =
     (if js_less (score a) (score b) then 1
      else if js_less (score b) (score a) then - 1
      else if name a < name b then - 1
      else if name a > name b then 1
      else 0)"

text \<open>
  \<^verbatim>\<open>cards.sort(compare)\<close>: for a comparison function that is consistent, the result is
  the stable sorted permutation, whatever algorithm the engine runs. It is computed here by
  insertion, each card going behind the cards it does not precede.
\<close>

fun insert_card :: "card \<Rightarrow> card list \<Rightarrow> card list" where
  "insert_card x [] = [x]"
| "insert_card x (y # ys) =
     (if compareCards x y < 0 then x # y # ys else y # insert_card x ys)"

definition sortCards :: "card list \<Rightarrow> card list" where
  "sortCards cards = foldl (\<lambda>ranked x. insert_card x ranked) [] cards"

text \<open>The order of the ranking: score descending, then name ascending.\<close>

definition ranks_before :: "card \<Rightarrow> card \<Rightarrow> bool" where
  "ranks_before a b \<longleftrightarrow>
     js_less (score b) (score a) \<or> (score a = score b \<and> name a \<le> name b)"

section \<open>Properties of the scorer\<close>

lemma count_metric_fold:
  "fold (\<lambda>metric. count_metric (snd metric)) ms (t, s) =
     (t + length (filter scorable (map snd ms)),
      s + length (filter truthy (filter scorable (map snd ms))))"
  by (induction ms arbitrary: t s) (auto simp: scorable_def)

lemma count_category_fold:
  "fold count_category cs (t, s) =
     (t + length (filter scorable (metric_values cs)),
      s + length (filter truthy (filter scorable (metric_values cs))))"
  by (induction cs arbitrary: t s)
     (auto simp: count_category_def count_metric_fold metric_values_def)

lemma count_results_eq:
  "count_results results =
     (length (filter scorable (metric_values results)),
      length (filter truthy (filter scorable (metric_values results))))"
  by (simp add: count_results_def count_category_fold)

lemma calculateScore_eq:
  "calculateScore results =
     Math_round (js_divide
       (Fin (of_nat (length (filter truthy (filter scorable (metric_values results)))) * 100))
       (Fin (of_nat (length (filter scorable (metric_values results))))))"
  by (simp add: calculateScore_def count_results_eq)

lemma round_percent_bounds:
  fixes P N :: nat
  assumes "P \<le> N" "0 < N"
  shows "0 \<le> round (100 * of_nat P / of_nat N :: rat) \<and> round (100 * of_nat P / of_nat N :: rat) \<le> 100"
proof
  have "(0::rat) \<le> 100 * of_nat P / of_nat N" by simp
  then show "0 \<le> round (100 * of_nat P / of_nat N :: rat)" by (simp add: round_def)
  have "(of_nat P :: rat) \<le> of_nat N" using assms by simp
  then have "100 * of_nat P / of_nat N \<le> (100 :: rat)" using assms
    by (simp add: divide_le_eq)
  then have "round (100 * of_nat P / of_nat N :: rat) \<le> round (100 :: rat)" by (rule round_mono)
  then show "round (100 * of_nat P / of_nat N :: rat) \<le> 100" by simp
qed

lemma calculateGrade_index:
  fixes s :: int
  assumes "0 \<le> s" "s \<le> 100"
  shows "calculateGrade (Fin (of_int s)) =
     Str ([''E'', ''D'', ''C'', ''B'', ''A'', ''Z''] ! nat (s div 20))"
proof -
  have f: "\<lfloor>(of_int s :: rat) / 20\<rfloor> = s div 20"
    using floor_divide_of_int_eq [of s 20, where ?'a = rat] by simp
  have r: "0 \<le> s div 20" "s div 20 < 6" using assms by auto
  have "(0::rat) \<le> of_int (s div 20)" using r by simp
  moreover have "(of_int (s div 20) :: rat) < 6" using r by simp
  ultimately show ?thesis
    by (simp add: calculateGrade_def f)
qed

text \<open>
  Claim C3. For normalized results whose metric values are booleans and strings, with \<open>N\<close>
  booleans (at least one) of which \<open>P\<close> are \<open>true\<close>, \<^verbatim>\<open>calculateScore\<close> returns the
  integer \<open>round (100 * P / N)\<close>, a half rounded up, which lies between 0 and 100; the strings
  are in neither count.
\<close>

theorem calculateScore_round:
  assumes "\<forall>v \<in> set (metric_values results). typeof v = ''boolean'' \<or> typeof v = ''string''"
    and "N = length (filter (\<lambda>v. typeof v = ''boolean'') (metric_values results))"
    and "P = length (filter (\<lambda>v. v = Bool True) (metric_values results))"
    and "0 < N"
  shows "calculateScore results = Fin (of_int (round (100 * of_nat P / of_nat N :: rat)))
       \<and> 0 \<le> round (100 * of_nat P / of_nat N :: rat)
       \<and> round (100 * of_nat P / of_nat N :: rat) \<le> 100"
proof -
  let ?mv = "metric_values results"
  have N: "length (filter scorable ?mv) = N"
    unfolding assms(2) using assms(1)
    by (intro arg_cong [where f = length] filter_cong) (auto simp: scorable_def)
  have "truthy v \<and> scorable v \<longleftrightarrow> v = Bool True" if "v \<in> set ?mv" for v
    using assms(1) that by (cases v) (auto simp: scorable_def)
  then have P: "length (filter truthy (filter scorable ?mv)) = P"
    unfolding assms(3) filter_filter by (intro arg_cong [where f = length] filter_cong) auto
  have "P \<le> N"
    unfolding P [symmetric] N [symmetric] by (rule length_filter_le)
  then have "0 \<le> round (100 * of_nat P / of_nat N :: rat) \<and> round (100 * of_nat P / of_nat N :: rat) \<le> 100"
    using assms(4) by (rule round_percent_bounds)
  moreover have "calculateScore results = Fin (of_int (round (100 * of_nat P / of_nat N :: rat)))"
    unfolding calculateScore_eq P N using assms(4) by (simp add: round_def mult.commute)
  ultimately show ?thesis by simp
qed

theorem calculateScore_round_witness:
  "map typeof (metric_values
        [(''HTTPS'', [(''HSTS'', Bool True), (''Accepts HTTPS'', Bool True)]),
         (''DNS'', [(''CAA'', Bool True)]),
         (''Miscellaneous Headers'', [(''Server'', Str ''nginx''), (''X-Powered-By'', Str ''PHP'')])])
       = [''boolean'', ''boolean'', ''boolean'', ''string'', ''string'']
   \<and> calculateScore
        [(''HTTPS'', [(''HSTS'', Bool True), (''Accepts HTTPS'', Bool True)]),
         (''DNS'', [(''CAA'', Bool True)]),
         (''Miscellaneous Headers'', [(''Server'', Str ''nginx''), (''X-Powered-By'', Str ''PHP'')])]
       = Fin 100"
  using calculateScore_round [of
        "[(''HTTPS'', [(''HSTS'', Bool True), (''Accepts HTTPS'', Bool True)]),
         (''DNS'', [(''CAA'', Bool True)]),
         (''Miscellaneous Headers'', [(''Server'', Str ''nginx''), (''X-Powered-By'', Str ''PHP'')])]"
        3 3]
  by (simp add: metric_values_def)

text \<open>
  Claim C4, as the code has it. With no metric that is not a string, \<^verbatim>\<open>calculateScore\<close>
  divides 0 by 0: it throws nothing and returns \<^verbatim>\<open>NaN\<close>, for which
  \<^verbatim>\<open>calculateGrade\<close> returns \<^verbatim>\<open>undefined\<close>. There is no fallback value.
\<close>

theorem calculateScore_zero_scorable:
  assumes "\<forall>v \<in> set (metric_values results). typeof v = ''string''"
  shows "calculateScore results = NaN \<and> calculateGrade (calculateScore results) = Undefined"
proof -
  have "filter scorable (metric_values results) = []"
    using assms by (simp add: scorable_def filter_empty_conv)
  then have "calculateScore results = NaN"
    unfolding calculateScore_eq by simp
  then show ?thesis by (simp add: calculateGrade_def)
qed

theorem calculateScore_zero_scorable_witness:
  "map typeof (metric_values [(''HTTPS'', []), (''Miscellaneous Headers'', [(''Server'', Str ''Apache'')])])
       = [''string'']
   \<and> calculateScore [(''HTTPS'', []), (''Miscellaneous Headers'', [(''Server'', Str ''Apache'')])] = NaN"
  using calculateScore_zero_scorable
    [of "[(''HTTPS'', []), (''Miscellaneous Headers'', [(''Server'', Str ''Apache'')])]"]
  by (simp add: metric_values_def)

theorem calculateScore_fallback_counterexample:
  "count_results [(''Miscellaneous Headers'', [(''Server'', Str ''nginx'')])] = (0, 0)
   \<and> calculateScore [(''Miscellaneous Headers'', [(''Server'', Str ''nginx'')])] = NaN
   \<and> calculateScore [(''Miscellaneous Headers'', [(''Server'', Str ''nginx'')])] \<noteq> Fin 0"
  by (simp add: calculateScore_def count_results_def count_category_def)

text \<open>
  Claim C5. For an integer score from 0 to 100, \<^verbatim>\<open>calculateGrade\<close> returns the letter at
  index \<open>score div 20\<close> of E, D, C, B, A, Z: E below 20, D below 40, C below 60, B below 80,
  A below 100, and Z at 100 and nowhere else.
\<close>

theorem calculateGrade_buckets:
  fixes s :: int
  assumes "0 \<le> s" and "s \<le> 100"
  shows "calculateGrade (Fin (of_int s)) =
           Str ([''E'', ''D'', ''C'', ''B'', ''A'', ''Z''] ! nat (s div 20))
       \<and> calculateGrade (Fin (of_int s)) =
           Str (if s < 20 then ''E'' else if s < 40 then ''D'' else if s < 60 then ''C''
                else if s < 80 then ''B'' else if s < 100 then ''A'' else ''Z'')
       \<and> (calculateGrade (Fin (of_int s)) = Str ''Z'' \<longleftrightarrow> s = 100)"
proof -
  note idx = calculateGrade_index [OF assms]
  consider "s < 20" | "20 \<le> s" "s < 40" | "40 \<le> s" "s < 60" | "60 \<le> s" "s < 80"
    | "80 \<le> s" "s < 100" | "s = 100"
    using assms by linarith
  then show ?thesis
  proof cases
    case 1
    then have "s div 20 = 0" using assms by simp
    with 1 show ?thesis unfolding idx by simp
  next
    case 2
    then have "s div 20 = 1" by simp
    with 2 show ?thesis unfolding idx by simp
  next
    case 3
    then have "s div 20 = 2" by simp
    with 3 show ?thesis unfolding idx by simp
  next
    case 4
    then have "s div 20 = 3" by simp
    with 4 show ?thesis unfolding idx by simp
  next
    case 5
    then have "s div 20 = 4" by simp
    with 5 show ?thesis unfolding idx by simp
  next
    case 6
    then show ?thesis unfolding idx by simp
  qed
qed

theorem calculateGrade_buckets_witness:
  "calculateGrade (Fin 0) = Str ''E'' \<and> calculateGrade (Fin 19) = Str ''E''
   \<and> calculateGrade (Fin 20) = Str ''D'' \<and> calculateGrade (Fin 39) = Str ''D''
   \<and> calculateGrade (Fin 40) = Str ''C'' \<and> calculateGrade (Fin 59) = Str ''C''
   \<and> calculateGrade (Fin 60) = Str ''B'' \<and> calculateGrade (Fin 79) = Str ''B''
   \<and> calculateGrade (Fin 80) = Str ''A'' \<and> calculateGrade (Fin 99) = Str ''A''
   \<and> calculateGrade (Fin 100) = Str ''Z''"
  using calculateGrade_buckets [of 0] calculateGrade_buckets [of 19]
    calculateGrade_buckets [of 20] calculateGrade_buckets [of 39]
    calculateGrade_buckets [of 40] calculateGrade_buckets [of 59]
    calculateGrade_buckets [of 60] calculateGrade_buckets [of 79]
    calculateGrade_buckets [of 80] calculateGrade_buckets [of 99]
    calculateGrade_buckets [of 100]
  by simp

text \<open>
  Claim C10. \<^verbatim>\<open>calculateScore\<close> counts in \<^verbatim>\<open>total\<close> every metric value whose type is
  not string, \<^verbatim>\<open>undefined\<close> and \<^verbatim>\<open>null\<close> among them, counts it in \<^verbatim>\<open>score\<close> exactly
  when it is truthy, and skips the strings only.
\<close>

theorem calculateScore_counts_non_strings:
  "count_results results =
     (length (filter scorable (metric_values results)),
      length (filter (\<lambda>v. scorable v \<and> truthy v) (metric_values results)))
   \<and> calculateScore results =
       Math_round (js_divide
         (Fin (of_nat (length (filter (\<lambda>v. scorable v \<and> truthy v) (metric_values results))) * 100))
         (Fin (of_nat (length (filter scorable (metric_values results))))))
   \<and> scorable v = (typeof v \<noteq> ''string'')
   \<and> scorable Undefined \<and> scorable Null \<and> \<not> truthy Undefined \<and> \<not> truthy Null
   \<and> count_metric Undefined (t, s) = (t + 1, s)
   \<and> count_metric Null (t, s) = (t + 1, s)
   \<and> count_metric (Str x) (t, s) = (t, s)"
proof -
  have "filter truthy (filter scorable xs) = filter (\<lambda>v. scorable v \<and> truthy v) xs" for xs
    by (simp add: conj_commute)
  then show ?thesis
    by (simp add: count_results_eq calculateScore_eq scorable_def)
qed

theorem calculateScore_counts_non_strings_witness:
  "count_results
     [(''HTTPS'', [(''Accepts HTTPS'', Undefined), (''HSTS'', Bool True)]),
      (''TLS'', [(''TLS 1.3 Enabled'', Null)]),
      (''Miscellaneous Headers'', [(''Server'', Str ''nginx'')])] = (3, 1)
   \<and> calculateScore
     [(''HTTPS'', [(''Accepts HTTPS'', Undefined), (''HSTS'', Bool True)]),
      (''TLS'', [(''TLS 1.3 Enabled'', Null)]),
      (''Miscellaneous Headers'', [(''Server'', Str ''nginx'')])] = Fin 33"
  using calculateScore_counts_non_strings [of
     "[(''HTTPS'', [(''Accepts HTTPS'', Undefined), (''HSTS'', Bool True)]),
      (''TLS'', [(''TLS 1.3 Enabled'', Null)]),
      (''Miscellaneous Headers'', [(''Server'', Str ''nginx'')])]"]
  by (simp add: metric_values_def scorable_def floor_eq_iff)

section \<open>Properties of the normalizer\<close>

lemma bind_simps: "bind (Inl e) f = Inl e" "bind (Inr x) f = f x"
  by (simp_all add: bind_def)

lemma get_simps: "get None p = Inl TypeError" "get (Some x) p = Inr (p x)"
  by (simp_all add: get_def)

lemma bind_eq_Inr: "bind m f = Inr y \<longleftrightarrow> (\<exists>x. m = Inr x \<and> f x = Inr y)"
  by (cases m) (simp_all add: bind_simps)

lemma not_returns_iff:
  fixes m :: "error + 'a"
  shows "(\<nexists>x. m = Inr x) \<longleftrightarrow> m = Inl TypeError"
proof (cases m)
  case (Inl e)
  then show ?thesis by (cases e) simp
next
  case (Inr x)
  then show ?thesis by simp
qed

lemma response_HTTPS_Inr:
  "response_HTTPS r = Inr ob \<longleftrightarrow>
     (\<exists>u s a h. upgradeToHttps r = Some u \<and> secureRedirectionChain r = Some s \<and>
        accepts r = Some a \<and> hsts r = Some h \<and>
        (if truthy (result h)
         then \<exists>d. data h = Some d \<and> ob =
           [(''Upgrade HTTP'', result u), (''Secure Redirection'', result s),
            (''Accepts HTTPS'', https a), (''HSTS'', result h),
            (''HSTS Long Length'',
               Bool (case age d of None \<Rightarrow> False | Some n \<Rightarrow> js_less_eq (Fin 180) n)),
            (''HSTS Preloaded'', preloaded d)]
         else ob =
           [(''Upgrade HTTP'', result u), (''Secure Redirection'', result s),
            (''Accepts HTTPS'', https a), (''HSTS'', result h),
            (''HSTS Long Length'', result h), (''HSTS Preloaded'', result h)]))"
  by (cases "upgradeToHttps r"; cases "secureRedirectionChain r"; cases "accepts r";
      cases "hsts r"; cases "data (the (hsts r))")
     (auto simp: response_HTTPS_def bind_simps get_simps js_and_def)

lemma response_TLS_Inr:
  "response_TLS r = Inr ob \<longleftrightarrow>
     (\<exists>t d f c. tlsProtocols r = Some t \<and> data t = Some d \<and>
        forwardSecrecy r = Some f \<and> certificate r = Some c \<and> ob =
          [(''TLS 1.3 Enabled'', read_prop d ''1.3''),
           (''TLS 1.1 Disabled'', Bool (\<not> truthy (read_prop d ''1.1''))),
           (''TLS 1.0 Disabled'', Bool (\<not> truthy (read_prop d ''1.0''))),
           (''Forward Secrecy'', result f), (''Certificate Length'', result c)])"
  by (cases "tlsProtocols r"; cases "data (the (tlsProtocols r))"; cases "forwardSecrecy r";
      cases "certificate r")
     (auto simp: response_TLS_def bind_simps get_simps)

lemma response_DNS_Inr:
  "response_DNS r = Inr ob \<longleftrightarrow>
     (\<exists>d c. dnssec r = Some d \<and> caa r = Some c \<and>
        ob = [(''DNSSEC'', result d), (''CAA'', result c)])"
  by (cases "dnssec r"; cases "caa r") (auto simp: response_DNS_def bind_simps get_simps)

lemma response_CSP_Inr:
  "response_CSP r = Inr ob \<longleftrightarrow>
     (\<exists>c d x y. contentSecurityPolicy r = Some c \<and> data c = Some d \<and>
        (if truthy (result c) then x = result c
         else \<exists>e. xXssProtection r = Some e \<and> x = result e) \<and>
        (if framingProtection (map_of d ''frame-ancestors'') then y = Bool True
         else \<exists>e. xFrameOptions r = Some e \<and> y = result e) \<and>
        ob = [(''XSS Protection'', x), (''Framing Protection'', y)])"
  by (cases "contentSecurityPolicy r"; cases "data (the (contentSecurityPolicy r))";
      cases "xXssProtection r"; cases "xFrameOptions r")
     (auto simp: response_CSP_def parseCsp_def bind_simps get_simps js_or_def)

lemma response_HTTP_Inr:
  "response_HTTP r = Inr ob \<longleftrightarrow>
     (\<exists>f p x. featurePolicy r = Some f \<and> referrerPolicy r = Some p \<and>
        xContentTypeOptions r = Some x \<and> ob =
          [(''Feature Policy'', result f), (''Referrer Policy'', result p),
           (''MIME Type Sniffing Protection'', result x)])"
  by (cases "featurePolicy r"; cases "referrerPolicy r"; cases "xContentTypeOptions r")
     (auto simp: response_HTTP_def bind_simps get_simps)

lemma header_value_Inr:
  "header_value e = Inr v \<longleftrightarrow>
     (\<exists>c. e = Some c \<and>
        (if truthy (result c) then v = Str [] else \<exists>d. data c = Some d \<and> v = value d))"
  by (cases e; cases "data (the e)") (auto simp: header_value_def bind_simps get_simps)

lemma results_Miscellaneous_Headers_Inr:
  "results_Miscellaneous_Headers b = Inr ob \<longleftrightarrow>
     (\<exists>br s p a. b = Some br \<and> header_value (server br) = Inr s \<and>
        header_value (poweredBy br) = Inr p \<and> header_value (aspVersion br) = Inr a \<and>
        ob = [(''Server'', s), (''X-Powered-By'', p), (''ASP.NET Version'', a)])"
  by (cases b) (auto simp: results_Miscellaneous_Headers_def bind_simps get_simps bind_eq_Inr)

lemma processResults_Inr:
  "processResults b r = Inr (response, r') \<longleftrightarrow>
     (\<exists>HTTPS TLS DNS CSP HTTP misc.
        response_HTTPS r = Inr HTTPS \<and> response_TLS r = Inr TLS \<and> response_DNS r = Inr DNS \<and>
        response_CSP r = Inr CSP \<and> response_HTTP r = Inr HTTP \<and>
        results_Miscellaneous_Headers b = Inr misc \<and>
        response = [(''HTTPS'', HTTPS), (''TLS'', TLS), (''DNS'', DNS), (''CSP'', CSP), (''HTTP'', HTTP)] \<and>
        r' = r\<lparr>Miscellaneous_Headers := Some misc\<rparr>)"
  by (auto simp: processResults_def bind_eq_Inr)

lemma space_split_not_Nil: "space_split s \<noteq> []"
  by (induction s) (auto split: list.splits)

lemma space_split_append:
  "space_split (u @ CHR '' '' # v) = space_split u @ space_split v"
proof (induction u)
  case Nil
  then show ?case by simp
next
  case (Cons c u)
  then show ?case
    using space_split_not_Nil [of u] by (auto split: list.splits)
qed

lemma space_split_single: "CHR '' '' \<notin> set w \<Longrightarrow> space_split w = [w]"
  by (induction w) auto

lemma join_space_split: "join '' '' (space_split s) = s"
proof (induction s)
  case Nil
  then show ?case by simp
next
  case (Cons c s)
  show ?case
  proof (cases "space_split s")
    case Nil
    then show ?thesis using space_split_not_Nil [of s] by simp
  next
    case (Cons w ws)
    then show ?thesis using Cons.IH by (cases ws) auto
  qed
qed

lemma join_member_sublist:
  "w \<in> set ws \<Longrightarrow> sublist ('' '' @ w @ '' '') ('' '' @ join '' '' ws @ '' '')"
proof (induction "'' ''" ws rule: join.induct)
  case 1
  then show ?case by simp
next
  case (2 x)
  then show ?case by simp
next
  case (3 x y ys)
  show ?case
  proof (cases "w = x")
    case True
    have "'' '' @ join '' '' (x # y # ys) @ '' '' = [] @ ('' '' @ w @ '' '') @ (join '' '' (y # ys) @ '' '')"
      using True by simp
    then show ?thesis unfolding sublist_def by blast
  next
    case False
    then have "w \<in> set (y # ys)" using 3 by simp
    then have "sublist ('' '' @ w @ '' '') ('' '' @ join '' '' (y # ys) @ '' '')" by (rule 3)
    then obtain p q where "'' '' @ join '' '' (y # ys) @ '' '' = p @ ('' '' @ w @ '' '') @ q"
      unfolding sublist_def by blast
    then have "'' '' @ join '' '' (x # y # ys) @ '' '' = ('' '' @ x @ p) @ ('' '' @ w @ '' '') @ q"
      by simp
    then show ?thesis unfolding sublist_def by blast
  qed
qed

lemma includes_entry:
  assumes "CHR '' '' \<notin> set w" and "w \<noteq> []"
  shows "js_includes ('' '' @ s @ '' '') ('' '' @ w @ '' '') \<longleftrightarrow> w \<in> set (space_split s)"
proof
  assume "js_includes ('' '' @ s @ '' '') ('' '' @ w @ '' '')"
  then obtain p q where "'' '' @ s @ '' '' = p @ ('' '' @ w @ '' '') @ q"
    unfolding js_includes_def sublist_def by blast
  then have "space_split ('' '' @ s @ '' '') = space_split (p @ CHR '' '' # (w @ CHR '' '' # q))"
    by simp
  also have "\<dots> = space_split p @ [w] @ space_split q"
    unfolding space_split_append space_split_single [OF assms(1)] by simp
  finally have "w \<in> set (space_split ('' '' @ s @ '' ''))" by simp
  moreover have "space_split ('' '' @ s @ '' '') = [] # space_split s @ [[]]"
    using space_split_append [of s "[]"] by simp
  ultimately show "w \<in> set (space_split s)" using assms(2) by auto
next
  assume "w \<in> set (space_split s)"
  then have "sublist ('' '' @ w @ '' '') ('' '' @ join '' '' (space_split s) @ '' '')"
    by (rule join_member_sublist)
  then show "js_includes ('' '' @ s @ '' '') ('' '' @ w @ '' '')"
    by (simp add: js_includes_def join_space_split)
qed

lemma space_split_join:
  "\<forall>t \<in> set toks. CHR '' '' \<notin> set t \<Longrightarrow> toks \<noteq> [] \<Longrightarrow> space_split (join '' '' toks) = toks"
proof (induction "'' ''" toks rule: join.induct)
  case 1
  then show ?case by simp
next
  case (2 x)
  then show ?case by (simp add: space_split_single)
next
  case (3 x y ys)
  then have "space_split (join '' '' (y # ys)) = y # ys" by simp
  moreover have "space_split x = [x]" using 3 by (simp add: space_split_single)
  ultimately show ?case
    using space_split_append [of x "join '' '' (y # ys)"] by simp
qed

lemma framingProtection_iff:
  "framingProtection fa \<longleftrightarrow>
     (\<exists>toks. fa = Some toks \<and> toks \<noteq> [] \<and>
        set (space_split (join '' '' toks)) \<inter> set wildcard_schemes = {})"
proof (cases fa)
  case None
  then show ?thesis by (simp add: framingProtection_def)
next
  case (Some toks)
  have e: "js_includes ('' '' @ s @ '' '') ('' '' @ w @ '' '') \<longleftrightarrow> w \<in> set (space_split s)"
    if "w \<in> set wildcard_schemes" for w s
    using that by (intro includes_entry) (auto simp: wildcard_schemes_def)
  have "js_includes ('' '' @ s @ '' '') '' data: '' \<longleftrightarrow> ''data:'' \<in> set (space_split s)"
    "js_includes ('' '' @ s @ '' '') '' http: '' \<longleftrightarrow> ''http:'' \<in> set (space_split s)"
    "js_includes ('' '' @ s @ '' '') '' https: '' \<longleftrightarrow> ''https:'' \<in> set (space_split s)" for s
    using e [of "''data:''" s] e [of "''http:''" s] e [of "''https:''" s]
    by (simp_all add: wildcard_schemes_def)
  then show ?thesis
    using Some by (auto simp: framingProtection_def wildcard_schemes_def)
qed

lemma response_HTTPS_returns:
  "(\<exists>ob. response_HTTPS r = Inr ob) \<longleftrightarrow>
     upgradeToHttps r \<noteq> None \<and> secureRedirectionChain r \<noteq> None \<and> accepts r \<noteq> None \<and>
     (case hsts r of None \<Rightarrow> False | Some h \<Rightarrow> truthy (result h) \<longrightarrow> data h \<noteq> None)"
proof (cases "hsts r")
  case None
  then show ?thesis unfolding response_HTTPS_Inr by simp
next
  case (Some h)
  show ?thesis
    unfolding response_HTTPS_Inr using Some by (cases "truthy (result h)") auto
qed

lemma response_TLS_returns:
  "(\<exists>ob. response_TLS r = Inr ob) \<longleftrightarrow>
     (case tlsProtocols r of None \<Rightarrow> False | Some t \<Rightarrow> data t \<noteq> None) \<and>
     forwardSecrecy r \<noteq> None \<and> certificate r \<noteq> None"
  unfolding response_TLS_Inr by (auto split: option.splits)

lemma response_DNS_returns:
  "(\<exists>ob. response_DNS r = Inr ob) \<longleftrightarrow> dnssec r \<noteq> None \<and> caa r \<noteq> None"
  unfolding response_DNS_Inr by auto

lemma response_CSP_returns:
  "(\<exists>ob. response_CSP r = Inr ob) \<longleftrightarrow>
     (case contentSecurityPolicy r of
        None \<Rightarrow> False
      | Some c \<Rightarrow>
          (case data c of
             None \<Rightarrow> False
           | Some d \<Rightarrow>
               (truthy (result c) \<or> xXssProtection r \<noteq> None) \<and>
               (framingProtection (map_of d ''frame-ancestors'') \<or> xFrameOptions r \<noteq> None)))"
  by (cases "contentSecurityPolicy r"; cases "data (the (contentSecurityPolicy r))";
      cases "xXssProtection r"; cases "xFrameOptions r")
     (auto simp: response_CSP_def parseCsp_def bind_simps get_simps js_or_def)

lemma response_HTTP_returns:
  "(\<exists>ob. response_HTTP r = Inr ob) \<longleftrightarrow>
     featurePolicy r \<noteq> None \<and> referrerPolicy r \<noteq> None \<and> xContentTypeOptions r \<noteq> None"
  unfolding response_HTTP_Inr by auto

lemma header_value_returns: "(\<exists>v. header_value e = Inr v) \<longleftrightarrow> header_readable e"
  unfolding header_value_Inr header_readable_def by (auto split: option.splits)

lemma results_Miscellaneous_Headers_returns:
  "(\<exists>ob. results_Miscellaneous_Headers b = Inr ob) \<longleftrightarrow>
     (case b of
        None \<Rightarrow> False
      | Some br \<Rightarrow>
          header_readable (server br) \<and> header_readable (poweredBy br) \<and>
          header_readable (aspVersion br))"
proof (cases b)
  case None
  then show ?thesis by (simp add: results_Miscellaneous_Headers_Inr)
next
  case (Some br)
  have "(\<exists>ob. results_Miscellaneous_Headers b = Inr ob) \<longleftrightarrow>
      (\<exists>s. header_value (server br) = Inr s) \<and> (\<exists>p. header_value (poweredBy br) = Inr p) \<and>
      (\<exists>a. header_value (aspVersion br) = Inr a)"
    unfolding results_Miscellaneous_Headers_Inr using Some by auto
  then show ?thesis using Some by (simp add: header_value_returns)
qed

lemma processResults_returns:
  "(\<exists>response r'. processResults b r = Inr (response, r')) \<longleftrightarrow>
     (\<exists>ob. response_HTTPS r = Inr ob) \<and> (\<exists>ob. response_TLS r = Inr ob) \<and>
     (\<exists>ob. response_DNS r = Inr ob) \<and> (\<exists>ob. response_CSP r = Inr ob) \<and>
     (\<exists>ob. response_HTTP r = Inr ob) \<and> (\<exists>ob. results_Miscellaneous_Headers b = Inr ob)"
  unfolding processResults_Inr by blast

lemma processResults_shape:
  assumes "processResults b r = Inr (response, r')"
  shows "map (\<lambda>category. (fst category, map fst (snd category))) response =
     [(''HTTPS'', [''Upgrade HTTP'', ''Secure Redirection'', ''Accepts HTTPS'', ''HSTS'',
                   ''HSTS Long Length'', ''HSTS Preloaded'']),
      (''TLS'', [''TLS 1.3 Enabled'', ''TLS 1.1 Disabled'', ''TLS 1.0 Disabled'',
                 ''Forward Secrecy'', ''Certificate Length'']),
      (''DNS'', [''DNSSEC'', ''CAA'']),
      (''CSP'', [''XSS Protection'', ''Framing Protection'']),
      (''HTTP'', [''Feature Policy'', ''Referrer Policy'', ''MIME Type Sniffing Protection''])]"
proof -
  from assms obtain HTTPS TLS DNS CSP HTTP where
    h: "response_HTTPS r = Inr HTTPS" and t: "response_TLS r = Inr TLS" and
    d: "response_DNS r = Inr DNS" and c: "response_CSP r = Inr CSP" and
    p: "response_HTTP r = Inr HTTP" and
    r: "response = [(''HTTPS'', HTTPS), (''TLS'', TLS), (''DNS'', DNS), (''CSP'', CSP), (''HTTP'', HTTP)]"
    unfolding processResults_Inr by blast
  have "map fst HTTPS = [''Upgrade HTTP'', ''Secure Redirection'', ''Accepts HTTPS'', ''HSTS'',
      ''HSTS Long Length'', ''HSTS Preloaded'']"
    using h unfolding response_HTTPS_Inr by (auto split: if_splits)
  moreover have "map fst TLS = [''TLS 1.3 Enabled'', ''TLS 1.1 Disabled'', ''TLS 1.0 Disabled'',
      ''Forward Secrecy'', ''Certificate Length'']"
    using t unfolding response_TLS_Inr by auto
  moreover have "map fst DNS = [''DNSSEC'', ''CAA'']"
    using d unfolding response_DNS_Inr by auto
  moreover have "map fst CSP = [''XSS Protection'', ''Framing Protection'']"
    using c unfolding response_CSP_Inr by auto
  moreover have "map fst HTTP = [''Feature Policy'', ''Referrer Policy'', ''MIME Type Sniffing Protection'']"
    using p unfolding response_HTTP_Inr by auto
  ultimately show ?thesis unfolding r by simp
qed

lemma processResults_score_number:
  assumes "processResults b r = Inr (response, r')"
  shows "calculateScore response \<noteq> NaN"
proof -
  from assms obtain HTTPS TLS DNS CSP HTTP where
    t: "response_TLS r = Inr TLS" and
    r: "response = [(''HTTPS'', HTTPS), (''TLS'', TLS), (''DNS'', DNS), (''CSP'', CSP), (''HTTP'', HTTP)]"
    unfolding processResults_Inr by blast
  from t obtain x where "(''TLS 1.1 Disabled'', Bool x) \<in> set TLS"
    unfolding response_TLS_Inr by auto
  then have "Bool x \<in> set (metric_values response)"
    unfolding r metric_values_def by force
  then have "Bool x \<in> set (filter scorable (metric_values response))"
    by (simp add: scorable_def)
  then have "length (filter scorable (metric_values response)) \<noteq> 0"
    by (metis length_0_conv empty_iff empty_set)
  then show ?thesis
    unfolding calculateScore_eq by simp
qed

lemmas evaluate_processResults =
  processResults_def response_HTTPS_def response_TLS_def response_DNS_def response_CSP_def
  response_HTTP_def results_Miscellaneous_Headers_def parseCsp_def header_value_def
  framingProtection_def js_and_def js_or_def read_prop_def js_includes_def scan_def passed_def
  bind_simps get_simps sublist_code metric_def

text \<open>
  Claim C1, at a scan in which every entry is present. The response that
  \<^verbatim>\<open>processResults\<close> returns has the five categories HTTPS, TLS, DNS, CSP and HTTP, each
  with its fixed metric keys, and no category \<^verbatim>\<open>Miscellaneous Headers\<close>: the object with
  the three header strings is assigned to a property of the argument, not of the response.
\<close>

theorem processResults_without_Miscellaneous_Headers:
  "processResults (Some scan) scan =
     Inr ([(''HTTPS'',
             [(''Upgrade HTTP'', Bool True), (''Secure Redirection'', Bool True),
              (''Accepts HTTPS'', Bool True), (''HSTS'', Bool True),
              (''HSTS Long Length'', Bool True), (''HSTS Preloaded'', Bool True)]),
           (''TLS'',
             [(''TLS 1.3 Enabled'', Bool True), (''TLS 1.1 Disabled'', Bool True),
              (''TLS 1.0 Disabled'', Bool True), (''Forward Secrecy'', Bool True),
              (''Certificate Length'', Bool True)]),
           (''DNS'', [(''DNSSEC'', Bool True), (''CAA'', Bool True)]),
           (''CSP'', [(''XSS Protection'', Bool True), (''Framing Protection'', Bool True)]),
           (''HTTP'',
             [(''Feature Policy'', Bool True), (''Referrer Policy'', Bool True),
              (''MIME Type Sniffing Protection'', Bool True)])],
          scan\<lparr>Miscellaneous_Headers :=
            Some [(''Server'', Str ''nginx''), (''X-Powered-By'', Str []),
                  (''ASP.NET Version'', Str [])]\<rparr>)
   \<and> map_of (fst (projr (processResults (Some scan) scan))) ''Miscellaneous Headers'' = None
   \<and> map typeof (metric_values (fst (projr (processResults (Some scan) scan)))) =
       replicate 18 ''boolean''"
proof -
  have e: "processResults (Some scan) scan =
     Inr ([(''HTTPS'',
             [(''Upgrade HTTP'', Bool True), (''Secure Redirection'', Bool True),
              (''Accepts HTTPS'', Bool True), (''HSTS'', Bool True),
              (''HSTS Long Length'', Bool True), (''HSTS Preloaded'', Bool True)]),
           (''TLS'',
             [(''TLS 1.3 Enabled'', Bool True), (''TLS 1.1 Disabled'', Bool True),
              (''TLS 1.0 Disabled'', Bool True), (''Forward Secrecy'', Bool True),
              (''Certificate Length'', Bool True)]),
           (''DNS'', [(''DNSSEC'', Bool True), (''CAA'', Bool True)]),
           (''CSP'', [(''XSS Protection'', Bool True), (''Framing Protection'', Bool True)]),
           (''HTTP'',
             [(''Feature Policy'', Bool True), (''Referrer Policy'', Bool True),
              (''MIME Type Sniffing Protection'', Bool True)])],
          scan\<lparr>Miscellaneous_Headers :=
            Some [(''Server'', Str ''nginx''), (''X-Powered-By'', Str []),
                  (''ASP.NET Version'', Str [])]\<rparr>)"
    by (simp add: evaluate_processResults)
  show ?thesis
    unfolding e by (simp add: metric_values_def numeral_eq_Suc)
qed

text \<open>
  Claim C2, as the code has it. \<^verbatim>\<open>processResults\<close> returns exactly when every read it makes
  finds something to read; otherwise it throws a \<^verbatim>\<open>TypeError\<close>. Absent \<^verbatim>\<open>hsts.data\<close> is
  tolerated when the HSTS result is falsy, an absent \<^verbatim>\<open>xXssProtection\<close> entry when the CSP
  result is truthy, an absent \<^verbatim>\<open>xFrameOptions\<close> entry when the frame-ancestors directive
  protects, and absent \<^verbatim>\<open>data\<close> of a header check when its result is truthy; nothing else
  that is read may be absent.
\<close>

theorem processResults_returns_iff:
  "((\<exists>response r'. processResults b r = Inr (response, r')) \<longleftrightarrow> reads_defined b r)
   \<and> (processResults b r = Inl TypeError \<longleftrightarrow> \<not> reads_defined b r)"
proof -
  have 1: "(\<exists>response r'. processResults b r = Inr (response, r')) \<longleftrightarrow> reads_defined b r"
    unfolding processResults_returns response_HTTPS_returns response_TLS_returns
      response_DNS_returns response_CSP_returns response_HTTP_returns
      results_Miscellaneous_Headers_returns reads_defined_def
    by (simp only: conj_assoc)
  have "processResults b r = Inl TypeError \<longleftrightarrow> (\<nexists>x. processResults b r = Inr x)"
    by (rule not_returns_iff [symmetric])
  then show ?thesis using 1 by auto
qed

theorem processResults_returns_iff_witness:
  "reads_defined (Some scan) (scan\<lparr>hsts := Some \<lparr>result = Bool False, data = None\<rparr>\<rparr>)
   \<and> (\<exists>response r'.
        processResults (Some scan) (scan\<lparr>hsts := Some \<lparr>result = Bool False, data = None\<rparr>\<rparr>)
          = Inr (response, r'))
   \<and> \<not> reads_defined (Some scan) (scan\<lparr>caa := None\<rparr>)
   \<and> processResults (Some scan) (scan\<lparr>caa := None\<rparr>) = Inl TypeError"
  using processResults_returns_iff
      [of "Some scan" "scan\<lparr>hsts := Some \<lparr>result = Bool False, data = None\<rparr>\<rparr>"]
    processResults_returns_iff [of "Some scan" "scan\<lparr>caa := None\<rparr>"]
  by (simp add: reads_defined_def header_readable_def framingProtection_def js_includes_def
      sublist_code scan_def passed_def)

theorem processResults_total_counterexample:
  "processResults (Some scan) (scan\<lparr>tlsProtocols := Some \<lparr>result = Bool True, data = None\<rparr>\<rparr>)
     = Inl TypeError
   \<and> processResults (Some scan) (scan\<lparr>hsts := Some \<lparr>result = Bool True, data = None\<rparr>\<rparr>)
     = Inl TypeError
   \<and> processResults (Some scan) (scan\<lparr>dnssec := None\<rparr>) = Inl TypeError"
  by (simp add: evaluate_processResults)

text \<open>
  Claim C6. When \<^verbatim>\<open>processResults\<close> returns, the metric \<^verbatim>\<open>Framing Protection\<close> is
  \<^verbatim>\<open>true\<close> exactly when the frame-ancestors directive is present with at least one source
  and none of the space-delimited entries of its source list is \<^verbatim>\<open>data:\<close>, \<^verbatim>\<open>http:\<close> or
  \<^verbatim>\<open>https:\<close>, or the X-Frame-Options result is \<^verbatim>\<open>true\<close>. For sources without spaces the
  entries are the sources themselves, compared whole. With the directive absent or empty the
  metric is the X-Frame-Options result.
\<close>

theorem Framing_Protection_iff:
  assumes "processResults b r = Inr (response, r')"
    and "contentSecurityPolicy r = Some c" and "data c = Some d"
  shows "\<exists>v. metric response ''CSP'' ''Framing Protection'' = Some v \<and>
     (v = Bool True \<longleftrightarrow>
        (\<exists>toks. map_of d ''frame-ancestors'' = Some toks \<and> toks \<noteq> [] \<and>
           set (space_split (join '' '' toks)) \<inter> set wildcard_schemes = {}) \<or>
        (\<exists>x. xFrameOptions r = Some x \<and> result x = Bool True)) \<and>
     (\<forall>toks. map_of d ''frame-ancestors'' = Some toks \<and> (\<forall>t \<in> set toks. CHR '' '' \<notin> set t) \<longrightarrow>
        (v = Bool True \<longleftrightarrow>
           (toks \<noteq> [] \<and> set toks \<inter> set wildcard_schemes = {}) \<or>
           (\<exists>x. xFrameOptions r = Some x \<and> result x = Bool True))) \<and>
     (map_of d ''frame-ancestors'' = None \<or> map_of d ''frame-ancestors'' = Some [] \<longrightarrow>
        (\<exists>x. xFrameOptions r = Some x \<and> v = result x))"
proof -
  let ?fa = "map_of d ''frame-ancestors''"
  from assms(1) obtain CSP HTTPS TLS DNS HTTP where
    c: "response_CSP r = Inr CSP" and
    r: "response = [(''HTTPS'', HTTPS), (''TLS'', TLS), (''DNS'', DNS), (''CSP'', CSP), (''HTTP'', HTTP)]"
    unfolding processResults_Inr by blast
  from c assms(2,3) obtain x y where
    y: "if framingProtection ?fa then y = Bool True
        else \<exists>e. xFrameOptions r = Some e \<and> y = result e" and
    ob: "CSP = [(''XSS Protection'', x), (''Framing Protection'', y)]"
    unfolding response_CSP_Inr by auto
  have m: "metric response ''CSP'' ''Framing Protection'' = Some y"
    unfolding r ob by (simp add: metric_def)
  have 1: "y = Bool True \<longleftrightarrow>
      (\<exists>toks. ?fa = Some toks \<and> toks \<noteq> [] \<and>
         set (space_split (join '' '' toks)) \<inter> set wildcard_schemes = {}) \<or>
      (\<exists>x. xFrameOptions r = Some x \<and> result x = Bool True)"
    using y unfolding framingProtection_iff [symmetric] by (auto split: if_splits)
  have 2: "y = Bool True \<longleftrightarrow>
      (toks \<noteq> [] \<and> set toks \<inter> set wildcard_schemes = {}) \<or>
      (\<exists>x. xFrameOptions r = Some x \<and> result x = Bool True)"
    if "?fa = Some toks" and "\<forall>t \<in> set toks. CHR '' '' \<notin> set t" for toks
  proof (cases "toks = []")
    case True
    then show ?thesis using 1 that(1) by simp
  next
    case False
    then show ?thesis using 1 that(1) space_split_join [OF that(2) False] by simp
  qed
  have 3: "\<exists>x. xFrameOptions r = Some x \<and> y = result x"
    if "?fa = None \<or> ?fa = Some []"
  proof -
    have "\<not> framingProtection ?fa"
      using that unfolding framingProtection_iff by auto
    then show ?thesis using y by simp
  qed
  show ?thesis using m 1 2 3 by blast
qed

theorem Framing_Protection_iff_witness:
  "metric (fst (projr (processResults (Some scan)
       (scan\<lparr>contentSecurityPolicy :=
               Some \<lparr>result = Bool True, data = Some [(''frame-ancestors'', [''https:''])]\<rparr>,
             xFrameOptions := Some \<lparr>result = Bool False, data = None\<rparr>\<rparr>))))
     ''CSP'' ''Framing Protection'' = Some (Bool False)
   \<and> metric (fst (projr (processResults (Some scan)
       (scan\<lparr>contentSecurityPolicy :=
               Some \<lparr>result = Bool True, data = Some [(''frame-ancestors'', [''self.example.com''])]\<rparr>,
             xFrameOptions := Some \<lparr>result = Bool False, data = None\<rparr>\<rparr>))))
     ''CSP'' ''Framing Protection'' = Some (Bool True)
   \<and> metric (fst (projr (processResults (Some scan)
       (scan\<lparr>contentSecurityPolicy :=
               Some \<lparr>result = Bool True, data = Some [(''frame-ancestors'', [''https://partner.example''])]\<rparr>,
             xFrameOptions := Some \<lparr>result = Bool False, data = None\<rparr>\<rparr>))))
     ''CSP'' ''Framing Protection'' = Some (Bool True)
   \<and> metric (fst (projr (processResults (Some scan)
       (scan\<lparr>contentSecurityPolicy :=
               Some \<lparr>result = Bool True, data = Some [(''default-src'', [''https:''])]\<rparr>,
             xFrameOptions := Some \<lparr>result = Bool False, data = None\<rparr>\<rparr>))))
     ''CSP'' ''Framing Protection'' = Some (Bool False)
   \<and> metric (fst (projr (processResults (Some scan)
       (scan\<lparr>contentSecurityPolicy :=
               Some \<lparr>result = Bool True, data = Some [(''frame-ancestors'', [])]\<rparr>\<rparr>))))
     ''CSP'' ''Framing Protection'' = Some (Bool True)"
  using Framing_Protection_iff [of "Some scan"
      "scan\<lparr>contentSecurityPolicy :=
               Some \<lparr>result = Bool True, data = Some [(''frame-ancestors'', [''https:''])]\<rparr>,
             xFrameOptions := Some \<lparr>result = Bool False, data = None\<rparr>\<rparr>"
      "fst (projr (processResults (Some scan)
       (scan\<lparr>contentSecurityPolicy :=
               Some \<lparr>result = Bool True, data = Some [(''frame-ancestors'', [''https:''])]\<rparr>,
             xFrameOptions := Some \<lparr>result = Bool False, data = None\<rparr>\<rparr>)))"
      "snd (projr (processResults (Some scan)
       (scan\<lparr>contentSecurityPolicy :=
               Some \<lparr>result = Bool True, data = Some [(''frame-ancestors'', [''https:''])]\<rparr>,
             xFrameOptions := Some \<lparr>result = Bool False, data = None\<rparr>\<rparr>)))"
      "\<lparr>result = Bool True, data = Some [(''frame-ancestors'', [''https:''])]\<rparr>"
      "[(''frame-ancestors'', [''https:''])]"]
  by (simp add: evaluate_processResults)

text \<open>
  Claim C7, as the code has it. When \<^verbatim>\<open>processResults\<close> returns and the HSTS result is
  falsy, \<^verbatim>\<open>HSTS Long Length\<close> and \<^verbatim>\<open>HSTS Preloaded\<close> are that falsy result itself,
  whatever the age and preload data: \<^verbatim>\<open>false\<close> when it is \<^verbatim>\<open>false\<close>, \<^verbatim>\<open>undefined\<close> when
  it is absent. When the HSTS result is truthy, \<^verbatim>\<open>HSTS Long Length\<close> is the boolean
  \<^verbatim>\<open>180 <= age\<close> and \<^verbatim>\<open>HSTS Preloaded\<close> is the preload flag.
\<close>

theorem HSTS_derived_metrics:
  assumes "processResults b r = Inr (response, r')" and "hsts r = Some h"
  shows "metric response ''HTTPS'' ''HSTS'' = Some (result h)
     \<and> (\<not> truthy (result h) \<longrightarrow>
          metric response ''HTTPS'' ''HSTS Long Length'' = Some (result h) \<and>
          metric response ''HTTPS'' ''HSTS Preloaded'' = Some (result h))
     \<and> (result h = Bool False \<longrightarrow>
          metric response ''HTTPS'' ''HSTS Long Length'' = Some (Bool False) \<and>
          metric response ''HTTPS'' ''HSTS Preloaded'' = Some (Bool False))
     \<and> (truthy (result h) \<longrightarrow>
          (\<exists>d. data h = Some d \<and>
             metric response ''HTTPS'' ''HSTS Long Length'' =
               Some (Bool (case age d of None \<Rightarrow> False | Some n \<Rightarrow> js_less_eq (Fin 180) n)) \<and>
             metric response ''HTTPS'' ''HSTS Preloaded'' = Some (preloaded d)))
     \<and> (\<forall>d a. truthy (result h) \<and> data h = Some d \<and> age d = Some (Fin a) \<longrightarrow>
          metric response ''HTTPS'' ''HSTS Long Length'' = Some (Bool (180 \<le> a)))"
proof -
  from assms(1) obtain HTTPS TLS DNS CSP HTTP where
    h: "response_HTTPS r = Inr HTTPS" and
    r: "response = [(''HTTPS'', HTTPS), (''TLS'', TLS), (''DNS'', DNS), (''CSP'', CSP), (''HTTP'', HTTP)]"
    unfolding processResults_Inr by blast
  show ?thesis
  proof (cases "truthy (result h)")
    case True
    have "\<exists>d. data h = Some d \<and> map_of HTTPS ''HSTS'' = Some (result h) \<and>
        map_of HTTPS ''HSTS Long Length'' =
          Some (Bool (case age d of None \<Rightarrow> False | Some n \<Rightarrow> js_less_eq (Fin 180) n)) \<and>
        map_of HTTPS ''HSTS Preloaded'' = Some (preloaded d)"
      using h assms(2) True unfolding response_HTTPS_Inr by auto
    with True show ?thesis unfolding r by (auto simp: metric_def)
  next
    case False
    have "map_of HTTPS ''HSTS'' = Some (result h) \<and>
        map_of HTTPS ''HSTS Long Length'' = Some (result h) \<and>
        map_of HTTPS ''HSTS Preloaded'' = Some (result h)"
      using h assms(2) False unfolding response_HTTPS_Inr by auto
    with False show ?thesis unfolding r by (auto simp: metric_def)
  qed
qed

theorem HSTS_derived_metrics_witness:
  "metric (fst (projr (processResults (Some scan)
       (scan\<lparr>hsts := Some \<lparr>result = Bool False,
                data = Some \<lparr>age = Some (Fin 365), preloaded = Bool True\<rparr>\<rparr>\<rparr>))))
     ''HTTPS'' ''HSTS Long Length'' = Some (Bool False)
   \<and> metric (fst (projr (processResults (Some scan)
       (scan\<lparr>hsts := Some \<lparr>result = Bool False,
                data = Some \<lparr>age = Some (Fin 365), preloaded = Bool True\<rparr>\<rparr>\<rparr>))))
     ''HTTPS'' ''HSTS Preloaded'' = Some (Bool False)
   \<and> metric (fst (projr (processResults (Some scan)
       (scan\<lparr>hsts := Some \<lparr>result = Bool True,
                data = Some \<lparr>age = Some (Fin 179), preloaded = Bool True\<rparr>\<rparr>\<rparr>))))
     ''HTTPS'' ''HSTS Long Length'' = Some (Bool False)
   \<and> metric (fst (projr (processResults (Some scan)
       (scan\<lparr>hsts := Some \<lparr>result = Bool True,
                data = Some \<lparr>age = Some (Fin 180), preloaded = Bool False\<rparr>\<rparr>\<rparr>))))
     ''HTTPS'' ''HSTS Long Length'' = Some (Bool True)"
  using HSTS_derived_metrics [of "Some scan"
      "scan\<lparr>hsts := Some \<lparr>result = Bool False,
                data = Some \<lparr>age = Some (Fin 365), preloaded = Bool True\<rparr>\<rparr>\<rparr>"
      "fst (projr (processResults (Some scan)
       (scan\<lparr>hsts := Some \<lparr>result = Bool False,
                data = Some \<lparr>age = Some (Fin 365), preloaded = Bool True\<rparr>\<rparr>\<rparr>)))"
      "snd (projr (processResults (Some scan)
       (scan\<lparr>hsts := Some \<lparr>result = Bool False,
                data = Some \<lparr>age = Some (Fin 365), preloaded = Bool True\<rparr>\<rparr>\<rparr>)))"
      "\<lparr>result = Bool False, data = Some \<lparr>age = Some (Fin 365), preloaded = Bool True\<rparr>\<rparr>"]
  by (simp add: evaluate_processResults)

theorem HSTS_absent_counterexample:
  "map_sum id
     (\<lambda>out. (metric (fst out) ''HTTPS'' ''HSTS'',
             metric (fst out) ''HTTPS'' ''HSTS Long Length'',
             metric (fst out) ''HTTPS'' ''HSTS Preloaded''))
     (processResults (Some scan)
        (scan\<lparr>hsts := Some \<lparr>result = Undefined,
                 data = Some \<lparr>age = Some (Fin 365), preloaded = Bool True\<rparr>\<rparr>\<rparr>))
     = Inr (Some Undefined, Some Undefined, Some Undefined)
   \<and> Undefined \<noteq> Bool False
   \<and> processResults (Some scan) (scan\<lparr>hsts := None\<rparr>) = Inl TypeError"
  by (simp add: evaluate_processResults)

section \<open>Properties of the snapshot\<close>

lemma and_then_simps:
  "and_then (Inl e) f = Inl e"
  "and_then (Inr x) f = f x"
  by (simp_all add: and_then_def)

lemma and_then_Inr:
  "and_then m f = Inr y \<longleftrightarrow> (\<exists>x. m = Inr x \<and> f x = Inr y)"
  by (cases m) (simp_all add: and_then_def)

lemmas evaluate_obj_put =
  obj_put_def array_index_def is_digit_def toString.simps digit_def

text \<open>
  The order of the keys of an object: array indices first, by number, then the other keys as
  they came. The file name of the month has six digits.
\<close>

lemma obj_put_order:
  "map fst (obj_put ''2'' v (obj_put ''10'' v (obj_put ''b'' v (obj_put ''1'' v
     (obj_put ''01'' v [])))))
   = [''1'', ''2'', ''10'', ''01'', ''b'']"
  by (simp add: evaluate_obj_put)

lemma map_of_insert_index:
  "key \<notin> set (map fst ob) \<Longrightarrow> map_of (insert_index n key v ob) = (map_of ob)(key \<mapsto> v)"
proof (induction ob)
  case Nil
  show ?case by simp
next
  case (Cons entry entries)
  then have "key \<noteq> fst entry" and "key \<notin> set (map fst entries)"
    by auto
  with Cons.IH show ?case
    by (cases entry) (auto split: option.split)
qed

lemma map_of_obj_put:
  "map_of (obj_put key v ob) = (map_of ob)(key \<mapsto> v)"
proof (cases "key \<in> set (map fst ob)")
  case True
  then show ?thesis
    by (simp add: obj_put_def update_conv')
next
  case False
  then have "map_of ob key = None"
    by (simp add: map_of_eq_None_iff)
  then have "map_of (ob @ [(key, v)]) = (map_of ob)(key \<mapsto> v)"
    by (auto simp: map_add_def fun_eq_iff split: option.split)
  with False show ?thesis
    by (simp add: obj_put_def map_of_insert_index split: option.split)
qed

lemma yearMonth_examples:
  "yearMonth 2026 11 = ''202611'' \<and> yearMonth 2026 3 = ''202603''"
  by (simp add: yearMonth_def toString.simps digit_def)

text \<open>
  The loop over the banks at a bank of a known country whose scan has every entry, with the
  three templates present: the two pages are written and the snapshot holds the normalized
  results of the bank.
\<close>

lemma createWebsite_bank_loop:
  "for_each (createWebsite_bank pages) [Some kiwibank] [(''nz'', [])] =
     Inr [(''nz'', [(''Kiwibank'', fst (projr (processResults (Some scan) scan)))])]"
  by (simp add: createWebsite_bank_def kiwibank_def pages_def writeBankPage_def
      makeBankMain_def htmlEncode_def thrown_def and_then_simps evaluate_obj_put
      evaluate_processResults)

text \<open>
  Claim C9, as the code has it. The claim is about appending the snapshot of a run and reading
  it back. \<^verbatim>\<open>createWebsite\<close>, the only place where the archive is written, never gets to
  the write: for all banks, countries and templates its body ends in an exception before the
  statements that name and write the month's file, so the archive directory stays as it was
  and \<^verbatim>\<open>getHistory\<close> finds no entry of this run. With the array that \<^verbatim>\<open>scanWebsites\<close>
  passes for one bank or more it is the \<^verbatim>\<open>TypeError\<close> of reading \<^verbatim>\<open>bank.results\<close> of
  \<^verbatim>\<open>undefined\<close>. With a bank as it should be and the templates present the snapshot is
  built, the pages of the bank and of the country are written, and \<^verbatim>\<open>writeHomePage\<close> throws
  the \<^verbatim>\<open>ReferenceError\<close> of reading \<^verbatim>\<open>countries\<close>.
\<close>

theorem createWebsite_throws_before_write:
  "(\<exists>e. createWebsite TEMPLATES banks countries year month dir = Inl e)
   \<and> createWebsite TEMPLATES (scanWebsites_banks (b # bs)) countries year month dir
       = Inl (Thrown TypeError)
   \<and> for_each (createWebsite_bank pages) [Some kiwibank] [(''nz'', [])]
       = Inr [(''nz'', [(''Kiwibank'', fst (projr (processResults (Some scan) scan)))])]
   \<and> createWebsite pages [Some kiwibank] [(''nz'', ''New Zealand'')] year month dir
       = Inl ReferenceError"
proof -
  have 1: "\<exists>e. createWebsite TEMPLATES banks countries year month dir = Inl e"
    unfolding createWebsite_def writeHomePage_def
    by (simp add: and_then_def split: sum.split)
  have 2: "createWebsite TEMPLATES (scanWebsites_banks (b # bs)) countries year month dir
       = Inl (Thrown TypeError)"
    by (simp add: createWebsite_def scanWebsites_banks_def createWebsite_bank_def
        and_then_simps)
  have fullResults:
    "fold (\<lambda>country fullResults. obj_put (fst country) [] fullResults)
       [(''nz'', ''New Zealand'')] [] = [(''nz'', [] :: results obj)]"
    by (simp add: evaluate_obj_put)
  have country: "writeCountryPage pages = Inr ()"
    by (simp add: writeCountryPage_def pages_def)
  have 3: "createWebsite pages [Some kiwibank] [(''nz'', ''New Zealand'')] year month dir
       = Inl ReferenceError"
    apply (simp only: createWebsite_def fullResults createWebsite_bank_loop and_then_simps)
    apply (simp only: for_each.simps country and_then_simps writeHomePage_def)
    done
  from 1 2 3 createWebsite_bank_loop show ?thesis
    by (simp only: simp_thms)
qed

section \<open>Properties of the ranking\<close>

lemma js_less_irrefl: "\<not> js_less a a"
  by (cases a) auto

lemma js_less_trans: "js_less a b \<Longrightarrow> js_less b c \<Longrightarrow> js_less a c"
  by (cases a; cases b; cases c) auto

lemma js_less_total: "a \<noteq> NaN \<Longrightarrow> b \<noteq> NaN \<Longrightarrow> a = b \<or> js_less a b \<or> js_less b a"
  by (cases a; cases b) auto

lemma js_less_asym: "js_less a b \<Longrightarrow> \<not> js_less b a"
  using js_less_trans js_less_irrefl by blast

lemma compareCards_neg:
  "compareCards a b < 0 \<longleftrightarrow>
     js_less (score b) (score a) \<or>
     (\<not> js_less (score a) (score b) \<and> name a < name b)"
  by (auto simp: compareCards_def dest: js_less_asym)

lemma compareCards_le:
  assumes "score a \<noteq> NaN" and "score b \<noteq> NaN"
  shows "compareCards a b \<le> 0 \<longleftrightarrow> ranks_before a b"
  using js_less_total [OF assms]
  by (auto simp: compareCards_def ranks_before_def dest: js_less_asym js_less_irrefl [THEN notE])

lemma ranks_before_trans:
  "ranks_before a b \<Longrightarrow> ranks_before b c \<Longrightarrow> ranks_before a c"
  by (auto simp: ranks_before_def dest: js_less_trans)

lemma ranks_before_total:
  "score a \<noteq> NaN \<Longrightarrow> score b \<noteq> NaN \<Longrightarrow> ranks_before a b \<or> ranks_before b a"
  using js_less_total [of "score a" "score b"] by (auto simp: ranks_before_def)

lemma ranks_before_antisym:
  "ranks_before a b \<Longrightarrow> ranks_before b a \<Longrightarrow> score a = score b \<and> name a = name b"
  by (auto simp: ranks_before_def dest: js_less_asym js_less_irrefl [THEN notE])

lemma mset_insert_card: "mset (insert_card x xs) = add_mset x (mset xs)"
  by (induction xs) auto

lemma set_insert_card: "set (insert_card x xs) = insert x (set xs)"
  by (induction xs) auto

lemma sorted_insert_card:
  assumes "score x \<noteq> NaN" and "\<forall>y \<in> set xs. score y \<noteq> NaN" and "sorted_wrt ranks_before xs"
  shows "sorted_wrt ranks_before (insert_card x xs)"
  using assms(2,3)
proof (induction xs)
  case Nil
  then show ?case by simp
next
  case (Cons y ys)
  show ?case
  proof (cases "compareCards x y < 0")
    case True
    then have xy: "ranks_before x y"
      using compareCards_le [of x y] assms(1) Cons.prems(1) by simp
    then have "\<forall>z \<in> set ys. ranks_before x z"
      using Cons.prems(2) by (auto intro: ranks_before_trans)
    then show ?thesis using True xy Cons.prems(2) by simp
  next
    case False
    then have "\<not> ranks_before x y \<or> compareCards x y = 0"
      using compareCards_le [of x y] assms(1) Cons.prems(1) by auto
    then have "ranks_before y x"
    proof
      assume "\<not> ranks_before x y"
      then show ?thesis using ranks_before_total [of x y] assms(1) Cons.prems(1) by simp
    next
      assume "compareCards x y = 0"
      then show ?thesis
        by (auto simp: compareCards_def ranks_before_def split: if_splits)
           (use js_less_total [of "score x" "score y"] assms(1) Cons.prems(1) in auto)
    qed
    then show ?thesis
      using False Cons by (auto simp: set_insert_card)
  qed
qed

lemma sortCards_fold:
  assumes "\<forall>y \<in> set xs. score y \<noteq> NaN" and "\<forall>y \<in> set acc. score y \<noteq> NaN"
    and "sorted_wrt ranks_before acc"
  shows "sorted_wrt ranks_before (foldl (\<lambda>ranked x. insert_card x ranked) acc xs)
       \<and> mset (foldl (\<lambda>ranked x. insert_card x ranked) acc xs) = mset acc + mset xs"
  using assms
proof (induction xs arbitrary: acc)
  case Nil
  then show ?case by simp
next
  case (Cons x xs)
  have "sorted_wrt ranks_before (insert_card x acc)"
    using Cons.prems by (intro sorted_insert_card) auto
  moreover have "\<forall>y \<in> set (insert_card x acc). score y \<noteq> NaN"
    using Cons.prems by (auto simp: set_insert_card)
  ultimately show ?case
    using Cons.IH [of "insert_card x acc"] Cons.prems(1) by (simp add: mset_insert_card)
qed

text \<open>
  Claim C8. On cards whose scores are numbers, as the scores of the cards that
  \<^verbatim>\<open>createWebsite\<close> builds are (\<open>processResults_score_number\<close>), the comparison of
  \<^verbatim>\<open>sortCards\<close> is the total order by score descending and then name ascending, and
  \<^verbatim>\<open>sortCards\<close> returns a permutation of its input in that order.
\<close>

theorem sortCards_sorted_permutation:
  assumes "\<forall>c \<in> set cards. score c \<noteq> NaN"
  shows "mset (sortCards cards) = mset cards
       \<and> sorted_wrt ranks_before (sortCards cards)
       \<and> (\<forall>a \<in> set cards. \<forall>b \<in> set cards. \<forall>c \<in> set cards.
            (compareCards a b \<le> 0 \<longleftrightarrow> ranks_before a b)
          \<and> (compareCards a b < 0 \<longleftrightarrow>
               js_less (score b) (score a) \<or> (score a = score b \<and> name a < name b))
          \<and> (compareCards a b = 0 \<longleftrightarrow> score a = score b \<and> name a = name b)
          \<and> (ranks_before a b \<or> ranks_before b a)
          \<and> (ranks_before a b \<and> ranks_before b c \<longrightarrow> ranks_before a c))"
proof -
  have s: "sorted_wrt ranks_before (sortCards cards) \<and> mset (sortCards cards) = mset cards"
    using sortCards_fold [of cards "[]"] assms by (simp add: sortCards_def)
  have o: "(compareCards a b \<le> 0 \<longleftrightarrow> ranks_before a b)
      \<and> (compareCards a b < 0 \<longleftrightarrow>
           js_less (score b) (score a) \<or> (score a = score b \<and> name a < name b))
      \<and> (compareCards a b = 0 \<longleftrightarrow> score a = score b \<and> name a = name b)
      \<and> (ranks_before a b \<or> ranks_before b a)
      \<and> (ranks_before a b \<and> ranks_before b c \<longrightarrow> ranks_before a c)"
    if "a \<in> set cards" "b \<in> set cards" for a b c
  proof -
    have n: "score a \<noteq> NaN" "score b \<noteq> NaN" using assms that by auto
    have 1: "compareCards a b \<le> 0 \<longleftrightarrow> ranks_before a b"
      using n by (rule compareCards_le)
    have 2: "compareCards a b < 0 \<longleftrightarrow>
        js_less (score b) (score a) \<or> (score a = score b \<and> name a < name b)"
      unfolding compareCards_neg
      using js_less_total [OF n] js_less_irrefl [of "score a"]
        js_less_asym [of "score a" "score b"]
      by auto
    have 3: "compareCards a b = 0 \<longleftrightarrow> score a = score b \<and> name a = name b"
      using js_less_total [OF n] js_less_irrefl [of "score a"]
      by (auto simp: compareCards_def)
    show ?thesis
      using 1 2 3 ranks_before_total [OF n] ranks_before_trans by blast
  qed
  show ?thesis using s o by blast
qed

theorem sortCards_sorted_permutation_witness:
  "sortCards
     [\<lparr>score = Fin 80, name = ''B'', html = ''<a>B</a>''\<rparr>,
      \<lparr>score = Fin 90, name = ''A'', html = ''<a>A</a>''\<rparr>,
      \<lparr>score = Fin 80, name = ''A'', html = ''<a>A2</a>''\<rparr>]
   = [\<lparr>score = Fin 90, name = ''A'', html = ''<a>A</a>''\<rparr>,
      \<lparr>score = Fin 80, name = ''A'', html = ''<a>A2</a>''\<rparr>,
      \<lparr>score = Fin 80, name = ''B'', html = ''<a>B</a>''\<rparr>]
   \<and> sorted_wrt ranks_before
       (sortCards
         [\<lparr>score = Fin 80, name = ''B'', html = ''<a>B</a>''\<rparr>,
          \<lparr>score = Fin 90, name = ''A'', html = ''<a>A</a>''\<rparr>,
          \<lparr>score = Fin 80, name = ''A'', html = ''<a>A2</a>''\<rparr>])"
  using sortCards_sorted_permutation [of
     "[\<lparr>score = Fin 80, name = ''B'', html = ''<a>B</a>''\<rparr>,
      \<lparr>score = Fin 90, name = ''A'', html = ''<a>A</a>''\<rparr>,
      \<lparr>score = Fin 80, name = ''A'', html = ''<a>A2</a>''\<rparr>]"]
  by (simp add: sortCards_def compareCards_def)

end
